theory Spec2Isabelle
  imports Main "HOL-Library.Sublist" "HOL-Library.AList"
begin

section \<open>Exceptions, events and the world\<close>

text \<open>
  The installer of \<^verbatim>\<open>omego/upgrade.py\<close> is Python 2 code (it uses \<^verbatim>\<open>basestring\<close>),
  so \<^verbatim>\<open>OSError\<close> and \<^verbatim>\<open>IOError\<close> are different exception classes: an
  \<^verbatim>\<open>except IOError\<close> clause does not catch an \<^verbatim>\<open>OSError\<close>. Every exception carries
  its message.
\<close>

datatype exn =
    Stop int string
  | OSError string
  | IOError string
  | AttributeError string
  | ShutilError string
  | Exception string

fun str_exn :: "exn \<Rightarrow> string" where
  "str_exn (Stop c m) = m"
| "str_exn (OSError m) = m"
| "str_exn (IOError m) = m"
| "str_exn (AttributeError m) = m"
| "str_exn (ShutilError m) = m"
| "str_exn (Exception m) = m"

datatype level = DEBUG | INFO | WARN | ERROR

text \<open>
  A logging call is recorded with its format string and its arguments, every call of a
  mutating primitive of the operating system and every call of an external collaborator
  with its arguments, in the order of the calls, whether the call succeeds or not.
\<close>

datatype event =
    Log level string "string list"
  | Rmtree string
  | Unlink string
  | Rmdir string
  | Symlink string string
  | CreateSymbolicLink string string nat
  | WriteFile string string
  | CopyFile string string
  | TempCreate string
  | TempDelete string
  | OmeroCli "string list"
  | OmeroBin "string list"
  | ExternalRun string "string list"
  | ExternalInit string
  | SetupOmeroCli
  | SetupPreviousOmeroEnv string string
  | SaveEnvVars string "string list"
  | Download
  | GetAsLocalPath string string
  | Unzip string string
  | Zip string string string
  | DbAdmin string string
  | CommandCall
  | ConfigureLogging

section \<open>Python strings\<close>

definition bslash :: char where
  "bslash = CHR 0x5C"

text \<open>\<^verbatim>\<open>str.lower()\<close> of a Python 2 byte string: the letters A to Z only.\<close>

definition lower_char :: "char \<Rightarrow> char" where
  "lower_char c =
     (case map_of (zip ''ABCDEFGHIJKLMNOPQRSTUVWXYZ'' ''abcdefghijklmnopqrstuvwxyz'') c of
        Some d \<Rightarrow> d
      | None \<Rightarrow> c)"

definition py_lower :: "string \<Rightarrow> string" where
  "py_lower s = map lower_char s"

text \<open>\<^verbatim>\<open>s.split(sep)\<close> for the separators satisfying \<open>isep\<close>: empty fields are kept.\<close>

fun split_sep :: "(char \<Rightarrow> bool) \<Rightarrow> string \<Rightarrow> string list" where
  "split_sep isep [] = [[]]"
| "split_sep isep (c # cs) =
     (if isep c then [] # split_sep isep cs
      else (case split_sep isep cs of
              [] \<Rightarrow> [[c]]
            | x # xs \<Rightarrow> (c # x) # xs))"

definition is_space :: "char \<Rightarrow> bool" where
  "is_space c = (c \<in> set [CHR 0x09, CHR 0x0A, CHR 0x0B, CHR 0x0C, CHR 0x0D, CHR '' ''])"

text \<open>\<^verbatim>\<open>s.split()\<close>: split on runs of whitespace, no empty fields.\<close>

definition split_ws :: "string \<Rightarrow> string list" where
  "split_ws s = filter (\<lambda>x. x \<noteq> []) (split_sep is_space s)"

fun join_with :: "string \<Rightarrow> string list \<Rightarrow> string" where
  "join_with s [] = []"
| "join_with s [x] = x"
| "join_with s (x # y # ys) = x @ s @ join_with s (y # ys)"

section \<open>Paths\<close>

datatype platform = Posix | Windows

definition is_sep :: "platform \<Rightarrow> char \<Rightarrow> bool" where
  "is_sep pf c = (c = CHR ''/'' \<or> (pf = Windows \<and> c = bslash))"

definition has_drive :: "string \<Rightarrow> bool" where
  "has_drive p = (case p of a # b # r \<Rightarrow> b = CHR '':'' | _ \<Rightarrow> False)"

text \<open>
  A path is looked up from the root when it starts with a separator; a Windows path with a
  drive letter is looked up from the root too, the drive being its first component.
\<close>

definition isabs :: "platform \<Rightarrow> string \<Rightarrow> bool" where
  "isabs pf p = (case p of [] \<Rightarrow> False
                 | c # r \<Rightarrow> is_sep pf c \<or> (pf = Windows \<and> has_drive p))"

definition comps :: "platform \<Rightarrow> string \<Rightarrow> string list" where
  "comps pf p = split_sep (is_sep pf) p"

text \<open>\<^verbatim>\<open>os.path.join(a, b)\<close> for two arguments.\<close>

definition os_path_join :: "platform \<Rightarrow> string \<Rightarrow> string \<Rightarrow> string" where
  "os_path_join pf a b =
     (if isabs pf b then b
      else if a = [] \<or> is_sep pf (last a) \<or> (pf = Windows \<and> last a = CHR '':'') then a @ b
      else a @ [if pf = Windows then bslash else CHR ''/''] @ b)"

text \<open>\<^verbatim>\<open>os.path.basename(p)\<close>: what follows the last separator.\<close>

definition os_path_basename :: "platform \<Rightarrow> string \<Rightarrow> string" where
  "os_path_basename pf p = last (comps pf p)"

text \<open>
  The component loop of \<^verbatim>\<open>normpath\<close>, with the components kept so far in \<open>out\<close>:
  empty and \<^verbatim>\<open>.\<close> components are dropped, \<^verbatim>\<open>..\<close> removes the component before it,
  is dropped at a root, and is kept otherwise.
\<close>

fun norm_comps :: "bool \<Rightarrow> string list \<Rightarrow> string list \<Rightarrow> string list" where
  "norm_comps rooted out [] = out"
| "norm_comps rooted out (c # cs) =
     (if c = [] \<or> c = ''.'' then norm_comps rooted out cs
      else if c = ''..'' then
        (if out \<noteq> [] \<and> last out \<noteq> ''..'' then norm_comps rooted (butlast out) cs
         else if out = [] \<and> rooted then norm_comps rooted out cs
         else norm_comps rooted (out @ [c]) cs)
      else norm_comps rooted (out @ [c]) cs)"

text \<open>\<^verbatim>\<open>posixpath.normpath\<close>.\<close>

definition posix_normpath :: "string \<Rightarrow> string" where
  "posix_normpath path =
     (if path = [] then ''.''
      else
        let initial_slashes =
              (if take 1 path = ''/'' then
                 (if take 2 path = ''//'' \<and> take 3 path \<noteq> ''///'' then 2 else 1 :: nat)
               else 0);
            new_comps = norm_comps (initial_slashes \<noteq> 0) [] (split_sep (\<lambda>c. c = CHR ''/'') path);
            p = replicate initial_slashes CHR ''/'' @ join_with ''/'' new_comps
        in if p = [] then ''.'' else p)"

text \<open>
  \<^verbatim>\<open>ntpath.normpath\<close> of Python 2.7, with the drive split off a path whose second
  character is a colon.
\<close>

definition nt_normpath :: "string \<Rightarrow> string" where
  "nt_normpath path0 =
     (if take 4 path0 = [bslash, bslash, CHR ''.'', bslash]
         \<or> take 4 path0 = [bslash, bslash, CHR ''?'', bslash] then path0
      else
        let path1 = map (\<lambda>c. if c = CHR ''/'' then bslash else c) path0;
            drive = (if has_drive path1 then take 2 path1 else []);
            rest = (if has_drive path1 then drop 2 path1 else path1);
            lead = takeWhile (\<lambda>c. c = bslash) rest;
            path2 = dropWhile (\<lambda>c. c = bslash) rest;
            prefix = (if drive = [] then lead
                      else if lead \<noteq> [] then drive @ [bslash] else drive);
            cs = norm_comps (prefix \<noteq> [] \<and> last prefix = bslash) []
                   (split_sep (\<lambda>c. c = bslash) path2);
            cs' = (if prefix = [] \<and> cs = [] then [''.''] else cs)
        in prefix @ join_with [bslash] cs')"

definition os_path_normpath :: "platform \<Rightarrow> string \<Rightarrow> string" where
  "os_path_normpath pf p = (case pf of Posix \<Rightarrow> posix_normpath p | Windows \<Rightarrow> nt_normpath p)"

section \<open>The file system\<close>

text \<open>
  The file system is a table from canonical paths (the components from the root, no
  symbolic link among them) to nodes. A path string is resolved as the kernel does it:
  component by component from the root or from the working directory, following the
  symbolic links it meets, at most 40 of them. There are no hard links, so two paths
  denote the same file exactly when they resolve to the same canonical path.

  Of the permissions, a file has its write permission: a file that is \<open>ReadOnly\<close> cannot
  be opened for writing, except by the superuser on POSIX, and cannot be removed on Windows.
  The permissions of directories and the read permission are not modelled.
\<close>

type_synonym rpath = "string list"

datatype mode = ReadWrite | ReadOnly

datatype node = Dir | File mode string | Link string

record filesystem =
  cwd :: rpath
  superuser :: bool
  nodes :: "(rpath \<times> node) list"

definition node_at :: "(rpath \<rightharpoonup> node) \<Rightarrow> rpath \<Rightarrow> node option" where
  "node_at ns q = (if q = [] then Some Dir else ns q)"

fun walk :: "platform \<Rightarrow> (rpath \<rightharpoonup> node) \<Rightarrow> bool \<Rightarrow> nat \<Rightarrow> rpath \<Rightarrow> string list \<Rightarrow> rpath option" where
  "walk pf ns follow fuel cur [] = Some cur"
| "walk pf ns follow fuel cur (c # cs) =
     (if c = [] \<or> c = ''.'' then walk pf ns follow fuel cur cs
      else if c = ''..'' then walk pf ns follow fuel (butlast cur) cs
      else (case ns (cur @ [c]) of
              None \<Rightarrow> if cs = [] then Some (cur @ [c]) else None
            | Some Dir \<Rightarrow> walk pf ns follow fuel (cur @ [c]) cs
            | Some (File m x) \<Rightarrow> if cs = [] then Some (cur @ [c]) else None
            | Some (Link t) \<Rightarrow>
                if cs = [] \<and> \<not> follow then Some (cur @ [c])
                else (case fuel of
                        0 \<Rightarrow> None
                      | Suc n \<Rightarrow>
                          if t = [] then None
                          else walk pf ns follow n (if isabs pf t then [] else cur)
                                 (comps pf t @ cs))))"

text \<open>
  The canonical path a path string leads to, when every directory on the way exists; the
  last component itself may be absent. With \<open>follow\<close> a symbolic link in the last position
  is followed (\<^verbatim>\<open>stat\<close>), without it is not (\<^verbatim>\<open>lstat\<close>).
\<close>

definition resolve :: "platform \<Rightarrow> filesystem \<Rightarrow> bool \<Rightarrow> string \<Rightarrow> rpath option" where
  "resolve pf f follow p =
     (if p = [] then None
      else walk pf (map_of (nodes f)) follow 40 (if isabs pf p then [] else cwd f) (comps pf p))"

definition stat_path :: "platform \<Rightarrow> filesystem \<Rightarrow> bool \<Rightarrow> string \<Rightarrow> (rpath \<times> node) option" where
  "stat_path pf f follow p =
     (case resolve pf f follow p of
        None \<Rightarrow> None
      | Some q \<Rightarrow> (case node_at (map_of (nodes f)) q of
                     None \<Rightarrow> None
                   | Some n \<Rightarrow> Some (q, n)))"

definition os_path_exists :: "platform \<Rightarrow> filesystem \<Rightarrow> string \<Rightarrow> bool" where
  "os_path_exists pf f p = (stat_path pf f True p \<noteq> None)"

definition os_path_isdir :: "platform \<Rightarrow> filesystem \<Rightarrow> string \<Rightarrow> bool" where
  "os_path_isdir pf f p = (case stat_path pf f True p of Some (q, Dir) \<Rightarrow> True | _ \<Rightarrow> False)"

text \<open>
  Python 2 has no \<^verbatim>\<open>os.path.samefile\<close>, \<^verbatim>\<open>os.readlink\<close> or \<^verbatim>\<open>os.symlink\<close> on
  Windows: naming them raises \<^verbatim>\<open>AttributeError\<close>. Elsewhere a failing call of the
  \<^verbatim>\<open>os\<close> module raises \<^verbatim>\<open>OSError\<close>, a failing \<^verbatim>\<open>open\<close> raises \<^verbatim>\<open>IOError\<close>.
\<close>

definition os_path_samefile :: "platform \<Rightarrow> filesystem \<Rightarrow> string \<Rightarrow> string \<Rightarrow> exn + bool" where
  "os_path_samefile pf f a b =
     (if pf = Windows then Inl (AttributeError ''samefile'')
      else (case stat_path pf f True a of
              None \<Rightarrow> Inl (OSError ''No such file or directory'')
            | Some (qa, na) \<Rightarrow>
                (case stat_path pf f True b of
                   None \<Rightarrow> Inl (OSError ''No such file or directory'')
                 | Some (qb, nb) \<Rightarrow> Inr (qa = qb))))"

definition os_readlink :: "platform \<Rightarrow> filesystem \<Rightarrow> string \<Rightarrow> exn + string" where
  "os_readlink pf f p =
     (if pf = Windows then Inl (AttributeError ''readlink'')
      else (case stat_path pf f False p of
              Some (q, Link t) \<Rightarrow> Inr t
            | Some (q, n) \<Rightarrow> Inl (OSError ''Invalid argument'')
            | None \<Rightarrow> Inl (OSError ''No such file or directory'')))"

definition set_node :: "rpath \<Rightarrow> node \<Rightarrow> filesystem \<Rightarrow> filesystem" where
  "set_node q n f = f\<lparr>nodes := AList.update q n (nodes f)\<rparr>"

definition del_node :: "rpath \<Rightarrow> filesystem \<Rightarrow> filesystem" where
  "del_node q f = f\<lparr>nodes := AList.delete q (nodes f)\<rparr>"

definition create_link :: "platform \<Rightarrow> filesystem \<Rightarrow> string \<Rightarrow> string \<Rightarrow> string option \<times> filesystem" where
  "create_link pf f target link =
     (case resolve pf f False link of
        None \<Rightarrow> (Some ''No such file or directory'', f)
      | Some q \<Rightarrow> (case node_at (map_of (nodes f)) q of
                     Some n \<Rightarrow> (Some ''File exists'', f)
                   | None \<Rightarrow> (None, set_node q (Link target) f)))"

definition os_symlink :: "platform \<Rightarrow> string \<Rightarrow> string \<Rightarrow> filesystem \<Rightarrow> (exn + unit) \<times> filesystem" where
  "os_symlink pf target link f =
     (case create_link pf f target link of
        (Some m, f') \<Rightarrow> (Inl (OSError m), f')
      | (None, f') \<Rightarrow> (Inr (), f'))"

text \<open>\<^verbatim>\<open>win32file.CreateSymbolicLink(link, target, flag)\<close>.\<close>

definition win32file_CreateSymbolicLink ::
  "platform \<Rightarrow> string \<Rightarrow> string \<Rightarrow> nat \<Rightarrow> filesystem \<Rightarrow> (exn + unit) \<times> filesystem" where
  "win32file_CreateSymbolicLink pf link target flag f =
     (case create_link pf f target link of
        (Some m, f') \<Rightarrow> (Inl (Exception m), f')
      | (None, f') \<Rightarrow> (Inr (), f'))"

text \<open>
  \<^verbatim>\<open>os.unlink\<close> removes a file or a symbolic link, never a directory; on Windows it
  cannot remove a read-only file, nor a symbolic link to a directory, which \<^verbatim>\<open>os.rmdir\<close>
  removes there.
\<close>

definition os_unlink :: "platform \<Rightarrow> string \<Rightarrow> filesystem \<Rightarrow> (exn + unit) \<times> filesystem" where
  "os_unlink pf p f =
     (case stat_path pf f False p of
        None \<Rightarrow> (Inl (OSError ''No such file or directory''), f)
      | Some (q, Dir) \<Rightarrow> (Inl (OSError ''Is a directory''), f)
      | Some (q, File m c) \<Rightarrow>
          if pf = Windows \<and> m = ReadOnly then (Inl (OSError ''Access is denied''), f)
          else (Inr (), del_node q f)
      | Some (q, Link t) \<Rightarrow>
          if pf = Windows \<and> os_path_isdir pf f p then (Inl (OSError ''Access is denied''), f)
          else (Inr (), del_node q f))"

definition os_rmdir :: "platform \<Rightarrow> string \<Rightarrow> filesystem \<Rightarrow> (exn + unit) \<times> filesystem" where
  "os_rmdir pf p f =
     (case stat_path pf f False p of
        None \<Rightarrow> (Inl (OSError ''No such file or directory''), f)
      | Some (q, Dir) \<Rightarrow>
          if q = [] \<or> list_ex (\<lambda>(k, n). strict_prefix q k) (nodes f)
          then (Inl (OSError ''Directory not empty''), f)
          else (Inr (), del_node q f)
      | Some (q, File m c) \<Rightarrow> (Inl (OSError ''Not a directory''), f)
      | Some (q, Link t) \<Rightarrow>
          if pf = Windows \<and> os_path_isdir pf f p then (Inr (), del_node q f)
          else (Inl (OSError ''Not a directory''), f))"

text \<open>
  \<^verbatim>\<open>shutil.rmtree\<close> refuses a symbolic link where \<^verbatim>\<open>os.path.islink\<close> can see one; on
  Windows, where Python 2 cannot, it empties the directory the link leads to and removes
  the link.
\<close>

definition shutil_rmtree :: "platform \<Rightarrow> string \<Rightarrow> filesystem \<Rightarrow> (exn + unit) \<times> filesystem" where
  "shutil_rmtree pf p f =
     (case stat_path pf f False p of
        None \<Rightarrow> (Inl (OSError ''No such file or directory''), f)
      | Some (q, File m c) \<Rightarrow> (Inl (OSError ''Not a directory''), f)
      | Some (q, Dir) \<Rightarrow>
          (if q = [] then Inl (OSError ''Device or resource busy'') else Inr (),
           f\<lparr>nodes := filter (\<lambda>(k, n). \<not> prefix q k) (nodes f)\<rparr>)
      | Some (q, Link t) \<Rightarrow>
          if pf = Windows then
            (case stat_path pf f True p of
               Some (d, Dir) \<Rightarrow>
                 (Inr (), f\<lparr>nodes := filter (\<lambda>(k, n). \<not> strict_prefix d k \<and> k \<noteq> q) (nodes f)\<rparr>)
             | _ \<Rightarrow> (Inl (OSError ''The system cannot find the path specified''), f))
          else (Inl (OSError ''Cannot call rmtree on a symbolic link''), f))"

text \<open>The mode of a file, \<^verbatim>\<open>os.access(p, os.W_OK)\<close> for a file, and \<^verbatim>\<open>os.chmod\<close>.\<close>

definition file_mode :: "platform \<Rightarrow> filesystem \<Rightarrow> string \<Rightarrow> mode option" where
  "file_mode pf f p =
     (case stat_path pf f True p of
        Some (q, File m c) \<Rightarrow> Some m
      | _ \<Rightarrow> None)"


definition os_chmod :: "platform \<Rightarrow> string \<Rightarrow> mode option \<Rightarrow> filesystem \<Rightarrow> filesystem" where
  "os_chmod pf p mo f =
     (case mo of
        None \<Rightarrow> f
      | Some m \<Rightarrow> (case stat_path pf f True p of
                     Some (q, File m0 c) \<Rightarrow> set_node q (File m c) f
                   | _ \<Rightarrow> f))"

text \<open>
  \<^verbatim>\<open>open(p, 'r').read()\<close> and \<^verbatim>\<open>open(p, 'w').write(s)\<close>. A new file is created
  writable; an existing file keeps its mode, and is written only if that mode or the user
  allows it.
\<close>

definition open_read :: "platform \<Rightarrow> filesystem \<Rightarrow> string \<Rightarrow> exn + string" where
  "open_read pf f p =
     (case stat_path pf f True p of
        Some (q, File m c) \<Rightarrow> Inr c
      | Some (q, n) \<Rightarrow> Inl (IOError ''Is a directory'')
      | None \<Rightarrow> Inl (IOError ''No such file or directory''))"

definition open_write :: "platform \<Rightarrow> string \<Rightarrow> string \<Rightarrow> filesystem \<Rightarrow> (exn + unit) \<times> filesystem" where
  "open_write pf p s f =
     (case resolve pf f True p of
        None \<Rightarrow> (Inl (IOError ''No such file or directory''), f)
      | Some q \<Rightarrow> (case node_at (map_of (nodes f)) q of
                     None \<Rightarrow> (Inr (), set_node q (File ReadWrite s) f)
                   | Some (File m c) \<Rightarrow>
                       if m = ReadWrite \<or> (pf = Posix \<and> superuser f)
                       then (Inr (), set_node q (File m s) f)
                       else (Inl (IOError ''Permission denied''), f)
                   | Some n \<Rightarrow> (Inl (IOError ''Is a directory''), f)))"

text \<open>
  \<^verbatim>\<open>shutil.copy(src, dst)\<close>, which is \<^verbatim>\<open>path.copy\<close>: into \<open>dst\<close> when it is a
  directory, refused when both are the same file, the content of \<open>src\<close> written to \<open>dst\<close>
  (\<^verbatim>\<open>copyfile\<close>) and then the mode of \<open>src\<close> given to \<open>dst\<close> (\<^verbatim>\<open>copymode\<close>). Where there is
  no \<^verbatim>\<open>os.path.samefile\<close> the two are compared as normalised absolute path strings.
\<close>

definition lexical_abspath :: "platform \<Rightarrow> filesystem \<Rightarrow> string \<Rightarrow> string list" where
  "lexical_abspath pf f p =
     map py_lower (norm_comps True [] ((if isabs pf p then [] else cwd f) @ comps pf p))"

definition shutil_samefile :: "platform \<Rightarrow> filesystem \<Rightarrow> string \<Rightarrow> string \<Rightarrow> bool" where
  "shutil_samefile pf f src dst =
     (if pf = Windows then lexical_abspath pf f src = lexical_abspath pf f dst
      else (case os_path_samefile pf f src dst of Inr b \<Rightarrow> b | Inl e \<Rightarrow> False))"

definition shutil_copy :: "platform \<Rightarrow> string \<Rightarrow> string \<Rightarrow> filesystem \<Rightarrow> (exn + unit) \<times> filesystem" where
  "shutil_copy pf src dst0 f =
     (let dst = (if os_path_isdir pf f dst0 then os_path_join pf dst0 (os_path_basename pf src)
                 else dst0)
      in if shutil_samefile pf f src dst then (Inl (ShutilError ''are the same file''), f)
         else (case open_read pf f src of
                 Inl e \<Rightarrow> (Inl e, f)
               | Inr c \<Rightarrow>
                   (case open_write pf dst c f of
                      (Inl e, f') \<Rightarrow> (Inl e, f')
                    | (Inr u, f') \<Rightarrow> (Inr (), os_chmod pf dst (file_mode pf f' src) f'))))"

text \<open>
  The file of \<^verbatim>\<open>tempfile.NamedTemporaryFile\<close> is created empty, and only under a name
  that is not in use (a symbolic link is a name in use).
\<close>

definition tempfile_create :: "platform \<Rightarrow> string \<Rightarrow> filesystem \<Rightarrow> (exn + unit) \<times> filesystem" where
  "tempfile_create pf p f =
     (case resolve pf f False p of
        None \<Rightarrow> (Inl (OSError ''No such file or directory''), f)
      | Some q \<Rightarrow> (case node_at (map_of (nodes f)) q of
                     None \<Rightarrow> (Inr (), set_node q (File ReadWrite []) f)
                   | Some n \<Rightarrow> (Inl (IOError ''No usable temporary file name found''), f)))"

section \<open>Programs: state and exceptions\<close>

record world =
  fs :: filesystem
  trace :: "event list"

text \<open>
  A statement runs in a world and ends with a value or with a raised exception; what it
  did to the world before raising stays done.
\<close>

type_synonym 'a io = "world \<Rightarrow> (exn + 'a) \<times> world"

definition ret :: "'a \<Rightarrow> 'a io" where
  "ret x = (\<lambda>w. (Inr x, w))"

definition raise :: "exn \<Rightarrow> 'a io" where
  "raise e = (\<lambda>w. (Inl e, w))"

definition bnd :: "'a io \<Rightarrow> ('a \<Rightarrow> 'b io) \<Rightarrow> 'b io" where
  "bnd m k = (\<lambda>w. case m w of (Inl e, w') \<Rightarrow> (Inl e, w') | (Inr x, w') \<Rightarrow> k x w')"

definition seq :: "'a io \<Rightarrow> 'b io \<Rightarrow> 'b io" where
  "seq m k = bnd m (\<lambda>x. k)"

text \<open>
  \<^verbatim>\<open>try: m except ...\<close>: the handler says which exceptions the clause catches
  (\<open>None\<close>: not caught, the exception goes on).
\<close>

definition try_except :: "'a io \<Rightarrow> (exn \<Rightarrow> 'a io option) \<Rightarrow> 'a io" where
  "try_except m h =
     (\<lambda>w. case m w of
             (Inl e, w') \<Rightarrow> (case h e of None \<Rightarrow> (Inl e, w') | Some k \<Rightarrow> k w')
           | (Inr x, w') \<Rightarrow> (Inr x, w'))"

text \<open>The exit of a \<^verbatim>\<open>with\<close> block: \<open>c\<close> runs however \<open>m\<close> ends.\<close>

definition on_exit :: "'a io \<Rightarrow> unit io \<Rightarrow> 'a io" where
  "on_exit m c =
     (\<lambda>w. case m w of
             (r, w1) \<Rightarrow> (case c w1 of (Inl e, w2) \<Rightarrow> (Inl e, w2) | (Inr u, w2) \<Rightarrow> (r, w2)))"

definition log_msg :: "level \<Rightarrow> string \<Rightarrow> string list \<Rightarrow> unit io" where
  "log_msg lvl fmt as = (\<lambda>w. (Inr (), w\<lparr>trace := trace w @ [Log lvl fmt as]\<rparr>))"

text \<open>A call that may change the file system, recorded in the trace.\<close>

definition fsop :: "event \<Rightarrow> (filesystem \<Rightarrow> (exn + 'a) \<times> filesystem) \<Rightarrow> 'a io" where
  "fsop ev g = (\<lambda>w. case g (fs w) of (r, f') \<Rightarrow> (r, \<lparr>fs = f', trace = trace w @ [ev]\<rparr>))"

text \<open>A call that only reads the file system.\<close>

definition query :: "(filesystem \<Rightarrow> exn + 'a) \<Rightarrow> 'a io" where
  "query g = (\<lambda>w. (g (fs w), w))"

definition query_ok :: "(filesystem \<Rightarrow> 'a) \<Rightarrow> 'a io" where
  "query_ok g = (\<lambda>w. (Inr (g (fs w)), w))"

text \<open>
  \<^verbatim>\<open>os.symlink(target, link)\<close>: on Windows the name \<^verbatim>\<open>os.symlink\<close> itself raises, and
  nothing is called.
\<close>

definition py_os_symlink :: "platform \<Rightarrow> string \<Rightarrow> string \<Rightarrow> unit io" where
  "py_os_symlink pf target link =
     (if pf = Windows then raise (AttributeError ''symlink'')
      else fsop (Symlink target link) (os_symlink pf target link))"

section \<open>Arguments and external collaborators\<close>

datatype pyval = PyNone | PyBool bool | PyInt int | PyStr string | PyList "string list"

text \<open>
  The parsed arguments (\<^verbatim>\<open>args\<close>): the attributes the installer reads, and in \<open>extra\<close>
  the attributes of the external parsers that it does not read.
\<close>

record args =
  archivelogs :: "string option"
  dry_run :: bool
  httppassword :: "string option"
  httpuser :: "string option"
  ignoreconfig :: bool
  initdb :: bool
  overwrite :: string
  prefix :: string
  prestartfile :: "string list option"
  registry :: string
  savevars :: string
  savevarsfile :: string
  server :: "string option"
  skipdelete :: string
  skipdeletezip :: string
  skipunzip :: bool
  skipweb :: string
  ssl :: string
  sym :: string
  tcp :: string
  unzipdir :: string
  upgradedb :: bool
  verbose :: bool
  extra :: "(string \<times> pyval) list"

text \<open>
  The modules \<^verbatim>\<open>artifacts\<close>, \<^verbatim>\<open>db\<close>, \<^verbatim>\<open>external\<close>, \<^verbatim>\<open>fileutils\<close> and the framework
  \<^verbatim>\<open>yaclifw\<close> are not part of \<^verbatim>\<open>upgrade.py\<close>: their functions are parameters. Each may
  change the file system and may raise. \<open>pyformat\<close> is Python's \<^verbatim>\<open>value % dict\<close>;
  \<open>tempfile_name\<close> is the name \<^verbatim>\<open>tempfile\<close> picks in a directory.
\<close>

record external =
  artifacts_download :: "args \<Rightarrow> filesystem \<Rightarrow> (exn + string) \<times> filesystem"
  fileutils_get_as_local_path ::
    "string \<Rightarrow> string \<Rightarrow> nat \<Rightarrow> string option \<Rightarrow> string option
       \<Rightarrow> filesystem \<Rightarrow> (exn + string \<times> string) \<times> filesystem"
  fileutils_unzip :: "string \<Rightarrow> string \<Rightarrow> filesystem \<Rightarrow> (exn + string) \<times> filesystem"
  fileutils_zip :: "string \<Rightarrow> string \<Rightarrow> string \<Rightarrow> filesystem \<Rightarrow> (exn + unit) \<times> filesystem"
  external_init :: "string \<Rightarrow> filesystem \<Rightarrow> (exn + unit) \<times> filesystem"
  setup_omero_cli :: "filesystem \<Rightarrow> (exn + unit) \<times> filesystem"
  setup_previous_omero_env :: "string \<Rightarrow> string \<Rightarrow> filesystem \<Rightarrow> (exn + unit) \<times> filesystem"
  save_env_vars :: "string \<Rightarrow> string list \<Rightarrow> filesystem \<Rightarrow> (exn + unit) \<times> filesystem"
  omero_cli :: "string list \<Rightarrow> filesystem \<Rightarrow> (exn + unit) \<times> filesystem"
  omero_bin :: "string list \<Rightarrow> filesystem \<Rightarrow> (exn + unit) \<times> filesystem"
  external_run :: "string \<Rightarrow> string list \<Rightarrow> filesystem \<Rightarrow> (exn + unit) \<times> filesystem"
  db_admin :: "string \<Rightarrow> string \<Rightarrow> args \<Rightarrow> filesystem \<Rightarrow> (exn + unit) \<times> filesystem"
  command_call :: "args \<Rightarrow> filesystem \<Rightarrow> (exn + unit) \<times> filesystem"
  configure_logging :: "args \<Rightarrow> filesystem \<Rightarrow> (exn + unit) \<times> filesystem"
  pyformat :: "string \<Rightarrow> (string \<times> pyval) list \<Rightarrow> exn + string"
  tempfile_name :: "filesystem \<Rightarrow> string \<Rightarrow> string"

section \<open>The installer\<close>

text \<open>The two subclasses of \<^verbatim>\<open>Install\<close>.\<close>

datatype variant = UnixInstall | WindowsInstall

definition class_name :: "variant \<Rightarrow> string" where
  "class_name v = (case v of UnixInstall \<Rightarrow> ''UnixInstall'' | WindowsInstall \<Rightarrow> ''WindowsInstall'')"

text \<open>A command is given as one string, split on whitespace, or as a list.\<close>

datatype command = CmdStr string | CmdList "string list"

definition command_list :: "command \<Rightarrow> string list" where
  "command_list c = (case c of CmdStr s \<Rightarrow> split_ws s | CmdList l \<Rightarrow> l)"

text \<open>\<^verbatim>\<open>Install.run\<close> and \<^verbatim>\<open>Install.bin\<close>.\<close>

definition run :: "external \<Rightarrow> command \<Rightarrow> unit io" where
  "run X c = fsop (OmeroCli (command_list c)) (omero_cli X (command_list c))"

definition bin :: "external \<Rightarrow> command \<Rightarrow> unit io" where
  "bin X c = fsop (OmeroBin (command_list c)) (omero_bin X (command_list c))"

text \<open>\<^verbatim>\<open>Install.web\<close>.\<close>

definition web :: "args \<Rightarrow> bool" where
  "web a = (''false'' = py_lower (skipweb a))"

text \<open>\<^verbatim>\<open>WindowsInstall.iisreset\<close>, \<^verbatim>\<open>stopweb\<close> and \<^verbatim>\<open>startweb\<close> of both classes.\<close>

definition iisreset :: "external \<Rightarrow> unit io" where
  "iisreset X = fsop (ExternalRun ''iisreset'' []) (external_run X ''iisreset'' [])"

definition stopweb :: "external \<Rightarrow> variant \<Rightarrow> unit io" where
  "stopweb X v =
     (case v of
        UnixInstall \<Rightarrow> bin X (CmdStr ''web stop'')
      | WindowsInstall \<Rightarrow>
          seq (log_msg INFO ''Removing web from IIS'' [])
         (seq (bin X (CmdStr ''web iis --remove''))
              (iisreset X)))"

definition startweb :: "external \<Rightarrow> variant \<Rightarrow> unit io" where
  "startweb X v =
     (case v of
        UnixInstall \<Rightarrow> run X (CmdStr ''web start'')
      | WindowsInstall \<Rightarrow>
          seq (log_msg INFO ''Configuring web in IIS'' [])
         (seq (run X (CmdStr ''web iis''))
              (iisreset X)))"

text \<open>
  \<^verbatim>\<open>with tempfile.NamedTemporaryFile(dir=d) as test: body\<close>: the file is created, the
  body runs, the file is deleted.
\<close>

definition named_temporary_file ::
  "platform \<Rightarrow> external \<Rightarrow> string \<Rightarrow> (string \<Rightarrow> 'a io) \<Rightarrow> 'a io" where
  "named_temporary_file pf X d body =
     bnd (query_ok (\<lambda>f. os_path_join pf d (tempfile_name X f d))) (\<lambda>name.
     seq (fsop (TempCreate name) (tempfile_create pf name))
         (on_exit (body name) (fsop (TempDelete name) (os_unlink pf name))))"

text \<open>\<^verbatim>\<open>samedir\<close>, \<^verbatim>\<open>readlink\<close>, \<^verbatim>\<open>rmlink\<close> and \<^verbatim>\<open>symlink\<close> of both classes.\<close>

definition samedir :: "platform \<Rightarrow> external \<Rightarrow> variant \<Rightarrow> string \<Rightarrow> string \<Rightarrow> bool io" where
  "samedir pf X v targetdir link =
     (case v of
        UnixInstall \<Rightarrow> query (\<lambda>f. os_path_samefile pf f targetdir link)
      | WindowsInstall \<Rightarrow>
          try_except (query (\<lambda>f. os_path_samefile pf f targetdir link))
            (\<lambda>e. case e of
                    AttributeError m \<Rightarrow>
                      Some (named_temporary_file pf X targetdir (\<lambda>name.
                              query_ok (\<lambda>f. os_path_exists pf f
                                               (os_path_join pf link (os_path_basename pf name)))))
                  | _ \<Rightarrow> None))"

definition readlink :: "platform \<Rightarrow> variant \<Rightarrow> string \<Rightarrow> string io" where
  "readlink pf v link =
     (case v of
        UnixInstall \<Rightarrow>
          bnd (query (\<lambda>f. os_readlink pf f link)) (\<lambda>t. ret (os_path_normpath pf t))
      | WindowsInstall \<Rightarrow>
          try_except
            (bnd (query (\<lambda>f. os_readlink pf f link)) (\<lambda>t. ret (os_path_normpath pf t)))
            (\<lambda>e. case e of
                    AttributeError m \<Rightarrow>
                      Some (bnd (query (\<lambda>f. open_read pf f (link @ ''.target'')))
                                (\<lambda>t. ret (os_path_normpath pf t)))
                  | _ \<Rightarrow> None))"

definition rmlink :: "platform \<Rightarrow> variant \<Rightarrow> string \<Rightarrow> unit io" where
  "rmlink pf v link =
     (case v of
        UnixInstall \<Rightarrow>
          try_except (fsop (Unlink link) (os_unlink pf link))
            (\<lambda>e. case e of
                    OSError m \<Rightarrow>
                      Some (seq (log_msg ERROR ''Failed to unlink %s: %s'' [link, str_exn e])
                                (raise e))
                  | _ \<Rightarrow> None)
      | WindowsInstall \<Rightarrow>
          bnd (query_ok (\<lambda>f. os_path_isdir pf f link)) (\<lambda>d.
            if d then fsop (Rmdir link) (os_rmdir pf link)
            else fsop (Unlink link) (os_unlink pf link)))"

definition symlink :: "platform \<Rightarrow> variant \<Rightarrow> string \<Rightarrow> string \<Rightarrow> unit io" where
  "symlink pf v targetdir link =
     (case v of
        UnixInstall \<Rightarrow>
          try_except (py_os_symlink pf targetdir link)
            (\<lambda>e. case e of
                    OSError m \<Rightarrow>
                      Some (seq (log_msg ERROR ''Failed to symlink %s to %s: %s''
                                   [targetdir, link, str_exn e])
                                (raise e))
                  | _ \<Rightarrow> None)
      | WindowsInstall \<Rightarrow>
          try_except (py_os_symlink pf targetdir link)
            (\<lambda>e. case e of
                    AttributeError m \<Rightarrow>
                      Some (bnd (query_ok (\<lambda>f. os_path_isdir pf f targetdir)) (\<lambda>d.
                            let flag = (if d then 1 else 0) in
                            seq (try_except
                                   (fsop (CreateSymbolicLink link targetdir flag)
                                      (win32file_CreateSymbolicLink pf link targetdir flag))
                                   (\<lambda>e'. Some (seq (log_msg ERROR ''Failed to symlink %s to %s: %s''
                                                     [targetdir, link, str_exn e'])
                                                  (raise e'))))
                                (fsop (WriteFile (link @ ''.target'') targetdir)
                                   (open_write pf (link @ ''.target'') targetdir))))
                  | _ \<Rightarrow> None))"

text \<open>\<^verbatim>\<open>Install.get_server_dir\<close>.\<close>

definition get_server_dir :: "external \<Rightarrow> args \<Rightarrow> string io" where
  "get_server_dir X a =
     bnd (case server a of
            None \<Rightarrow>
              if skipunzip a then raise (Stop 0 ''Unzip disabled, exiting'')
              else seq (log_msg INFO ''Downloading server'' [])
                       (fsop Download (artifacts_download X a))
          | Some srv \<Rightarrow>
              if srv = [] then
                if skipunzip a then raise (Stop 0 ''Unzip disabled, exiting'')
                else seq (log_msg INFO ''Downloading server'' [])
                         (fsop Download (artifacts_download X a))
              else
                let progress = (if verbose a then 20 else 0) in
                bnd (fsop (GetAsLocalPath srv (overwrite a))
                       (fileutils_get_as_local_path X srv (overwrite a) progress
                          (httpuser a) (httppassword a)))
                    (\<lambda>(ptype, local).
                       if ptype = ''file'' then
                         if skipunzip a then raise (Stop 0 ''Unzip disabled, exiting'')
                         else seq (log_msg INFO ''Unzipping %s'' [local])
                                  (fsop (Unzip local (unzipdir a))
                                     (fileutils_unzip X local (unzipdir a)))
                       else ret local))
         (\<lambda>srv. seq (log_msg DEBUG ''Server directory: %s'' [srv]) (ret srv))"

text \<open>\<^verbatim>\<open>Install.stop\<close>: \<^verbatim>\<open>except Exception\<close> catches every exception.\<close>

definition stop :: "external \<Rightarrow> variant \<Rightarrow> args \<Rightarrow> unit io" where
  "stop X v a =
     seq (try_except
            (seq (log_msg INFO ''Stopping server'' [])
            (seq (bin X (CmdStr ''admin status --nodeonly''))
                 (bin X (CmdStr ''admin stop''))))
            (\<lambda>e. Some (log_msg ERROR ''Error whilst stopping server: %s'' [str_exn e])))
         (if web a then
            try_except
              (seq (log_msg INFO ''Stopping web'' []) (stopweb X v))
              (\<lambda>e. Some (log_msg ERROR ''Error whilst stopping web: %s'' [str_exn e]))
          else ret ())"

text \<open>\<^verbatim>\<open>Install.configure_ports\<close>.\<close>

definition configure_ports :: "external \<Rightarrow> args \<Rightarrow> unit io" where
  "configure_ports X a =
     run X (CmdList [''admin'', ''ports'', ''--skipcheck'', ''--registry'', registry a,
                     ''--tcp'', tcp a, ''--ssl'', ssl a])"

text \<open>The loop over the pre-start files in \<^verbatim>\<open>Install.configure\<close>.\<close>

fun load_prestart :: "external \<Rightarrow> string list \<Rightarrow> unit io" where
  "load_prestart X [] = ret ()"
| "load_prestart X (f # files) =
     seq (log_msg INFO ''Loading prestart file %s'' [f])
    (bnd (fsop (GetAsLocalPath f ''backup'')
            (fileutils_get_as_local_path X f ''backup'' 0 None None))
         (\<lambda>(ftype, fpath).
            if ftype \<noteq> ''file'' then
              raise (Stop 50 (''Expected file, found: '' @ ftype @ '' '' @ f))
            else seq (run X (CmdList [''load'', fpath])) (load_prestart X files)))"

text \<open>\<^verbatim>\<open>samecontents\<close>, local to \<^verbatim>\<open>Install.configure\<close>.\<close>

definition samecontents :: "platform \<Rightarrow> string \<Rightarrow> string \<Rightarrow> bool io" where
  "samecontents pf a b =
     try_except (query (\<lambda>f. os_path_samefile pf f a b))
       (\<lambda>e. case e of
               AttributeError m \<Rightarrow>
                 Some (bnd (query (\<lambda>f. open_read pf f a)) (\<lambda>fa.
                       bnd (query (\<lambda>f. open_read pf f b)) (\<lambda>fb.
                       ret (fa = fb))))
             | _ \<Rightarrow> None)"

definition config_xml :: "platform \<Rightarrow> string \<Rightarrow> string" where
  "config_xml pf d = os_path_join pf (os_path_join pf (os_path_join pf d ''etc'') ''grid'') ''config.xml''"

text \<open>\<^verbatim>\<open>Install.configure\<close>; \<open>dir\<close> is \<^verbatim>\<open>self.dir\<close>.\<close>

definition configure ::
  "platform \<Rightarrow> external \<Rightarrow> string \<Rightarrow> args \<Rightarrow> bool \<Rightarrow> string list option \<Rightarrow> unit io" where
  "configure pf X dir a copyold prestart =
     (let target = config_xml pf dir in
      seq (if copyold then
             (let old_cfg = config_xml pf (sym a) in
              seq (log_msg INFO ''Copying old configuration from %s'' [old_cfg])
             (bnd (query_ok (\<lambda>f. os_path_exists pf f old_cfg)) (\<lambda>old_exists.
                if \<not> old_exists then raise (Stop 40 ''config.xml not found'')
                else
                  bnd (query_ok (\<lambda>f. os_path_exists pf f target)) (\<lambda>target_exists.
                  bnd (if target_exists then samecontents pf old_cfg target else ret False) (\<lambda>same.
                  if same then ret ()
                  else fsop (CopyFile old_cfg target) (shutil_copy pf old_cfg target))))))
           else
             bnd (query_ok (\<lambda>f. os_path_exists pf f target)) (\<lambda>target_exists.
               if target_exists then
                 seq (log_msg INFO ''Deleting configuration file %s'' [target])
                     (fsop (Unlink target) (os_unlink pf target))
               else ret ()))
     (seq (case prestart of
             None \<Rightarrow> ret ()
           | Some files \<Rightarrow> load_prestart X files)
          (configure_ports X a)))"

text \<open>\<^verbatim>\<open>Install.archive_logs\<close>.\<close>

definition archive_logs :: "platform \<Rightarrow> external \<Rightarrow> args \<Rightarrow> string option io" where
  "archive_logs pf X a =
     (case archivelogs a of
        None \<Rightarrow> ret None
      | Some archive \<Rightarrow>
          if archive = [] then ret None
          else
            let logdir = os_path_join pf (os_path_join pf (sym a) ''var'') ''log'' in
            seq (log_msg INFO ''Archiving logs to %s'' [archive])
           (seq (fsop (Zip archive logdir (os_path_join pf (sym a) ''var''))
                   (fileutils_zip X archive logdir (os_path_join pf (sym a) ''var'')))
                (ret (Some archive))))"

text \<open>
  \<^verbatim>\<open>Install.directories\<close>. The \<^verbatim>\<open>except IOError\<close> clause around \<^verbatim>\<open>readlink\<close> catches
  \<^verbatim>\<open>IOError\<close> only; \<^verbatim>\<open>and target\<close> asks for a target that is neither \<^verbatim>\<open>None\<close> nor
  empty.
\<close>

definition directories :: "platform \<Rightarrow> external \<Rightarrow> variant \<Rightarrow> string \<Rightarrow> args \<Rightarrow> unit io" where
  "directories pf X v dir a =
     bnd (samedir pf X v dir (sym a)) (\<lambda>same.
       if same then log_msg WARN ''Upgraded server was the same, not deleting'' []
       else
         bnd (try_except
                (bnd (readlink pf v (sym a)) (\<lambda>t. ret (Some t, Some (t @ ''.zip''))))
                (\<lambda>e. case e of
                        IOError m \<Rightarrow>
                          Some (seq (log_msg ERROR ''Unable to get symlink target: %s'' [sym a])
                                    (ret (None, None)))
                      | _ \<Rightarrow> None))
             (\<lambda>(target, targetzip).
         seq (case target of
                None \<Rightarrow> ret ()
              | Some t \<Rightarrow>
                  if ''false'' = py_lower (skipdelete a) \<and> t \<noteq> [] then
                    try_except
                      (seq (log_msg INFO ''Deleting %s'' [t]) (fsop (Rmtree t) (shutil_rmtree pf t)))
                      (\<lambda>e. case e of
                              OSError m \<Rightarrow>
                                Some (log_msg ERROR ''Failed to delete %s: %s'' [t, str_exn e])
                            | _ \<Rightarrow> None)
                  else ret ())
        (seq (case targetzip of
                None \<Rightarrow> ret ()
              | Some z \<Rightarrow>
                  if ''false'' = py_lower (skipdeletezip a) \<and> z \<noteq> [] then
                    try_except
                      (seq (log_msg INFO ''Deleting %s'' [z]) (fsop (Unlink z) (os_unlink pf z)))
                      (\<lambda>e. case e of
                              OSError m \<Rightarrow>
                                Some (log_msg ERROR ''Failed to delete %s: %s'' [z, str_exn e])
                            | _ \<Rightarrow> None)
                  else ret ())
        (seq (rmlink pf v (sym a))
             (symlink pf v dir (sym a))))))"

text \<open>\<^verbatim>\<open>Install.init_db\<close>, \<^verbatim>\<open>upgrade_db\<close> and \<^verbatim>\<open>start\<close>.\<close>

definition init_db :: "external \<Rightarrow> string \<Rightarrow> args \<Rightarrow> unit io" where
  "init_db X dir a =
     (if initdb a then
        seq (log_msg DEBUG ''Initialising database'' [])
            (fsop (DbAdmin dir ''init'') (db_admin X dir ''init'' a))
      else ret ())"

definition upgrade_db :: "external \<Rightarrow> string \<Rightarrow> args \<Rightarrow> unit io" where
  "upgrade_db X dir a =
     (if upgradedb a then
        seq (log_msg DEBUG ''Upgrading database'' [])
            (fsop (DbAdmin dir ''upgrade'') (db_admin X dir ''upgrade'' a))
      else ret ())"

definition start :: "external \<Rightarrow> variant \<Rightarrow> args \<Rightarrow> unit io" where
  "start X v a =
     seq (run X (CmdStr ''admin start''))
         (if web a then seq (log_msg INFO ''Starting web'' []) (startweb X v) else ret ())"

definition os_getcwd :: "platform \<Rightarrow> filesystem \<Rightarrow> string" where
  "os_getcwd pf f = (if pf = Windows then join_with [bslash] (cwd f)
                     else ''/'' @ join_with ''/'' (cwd f))"

text \<open>\<^verbatim>\<open>Install.__init__\<close>: a whole run of the installer.\<close>

definition Install :: "platform \<Rightarrow> external \<Rightarrow> variant \<Rightarrow> string \<Rightarrow> args \<Rightarrow> unit io" where
  "Install pf X v cmd a =
     seq (log_msg INFO ''%s: %s'' [class_name v, cmd])
    (seq (bnd (query_ok (os_getcwd pf)) (\<lambda>d. log_msg DEBUG ''Current directory: %s'' [d]))
    (bnd (if cmd = ''upgrade'' then
            bnd (query_ok (\<lambda>f. os_path_exists pf f (sym a))) (\<lambda>present.
              if \<not> present then raise (Stop 30 (''Symlink is missing: '' @ sym a))
              else ret False)
          else if cmd = ''install'' then
            bnd (query_ok (\<lambda>f. os_path_exists pf f (sym a))) (\<lambda>present.
              if present then raise (Stop 30 (''Symlink already exists: '' @ sym a))
              else ret True)
          else raise (Exception (''Unexpected command: '' @ cmd))) (\<lambda>newinstall.
     bnd (get_server_dir X a) (\<lambda>server_dir.
     seq (if newinstall then
            seq (symlink pf v server_dir (sym a))
                (log_msg INFO ''Installing %s (%s)...'' [server_dir, sym a])
          else log_msg INFO ''Upgrading %s (%s)...'' [server_dir, sym a])
    (seq (fsop (ExternalInit server_dir) (external_init X server_dir))
    (seq (fsop SetupOmeroCli (setup_omero_cli X))
    (seq (if \<not> newinstall then
            fsop (SetupPreviousOmeroEnv (sym a) (savevarsfile a))
              (setup_previous_omero_env X (sym a) (savevarsfile a))
          else ret ())
    (seq (if \<not> newinstall then
            seq (stop X v a) (seq (archive_logs pf X a) (ret ()))
          else ret ())
    (seq (configure pf X server_dir a (\<not> newinstall \<and> \<not> ignoreconfig a) (prestartfile a))
    (seq (directories pf X v server_dir a)
    (seq (if newinstall then init_db X server_dir a else ret ())
    (seq (upgrade_db X server_dir a)
    (seq (fsop (SaveEnvVars (savevarsfile a) (split_ws (savevars a)))
            (save_env_vars X (savevarsfile a) (split_ws (savevars a))))
         (start X v a))))))))))))))"

section \<open>The command\<close>

text \<open>
  The defaults that \<^verbatim>\<open>InstallBaseCommand.__init__\<close> and \<^verbatim>\<open>UpgradeCommand.__init__\<close> give
  to the options they declare.
\<close>

definition InstallBaseCommand_defaults :: "platform \<Rightarrow> args \<Rightarrow> args" where
  "InstallBaseCommand_defaults pf a =
     a\<lparr>dry_run := False, server := None, prestartfile := None, ignoreconfig := False,
       prefix := [], registry := ''%(prefix)s4061'', tcp := ''%(prefix)s4063'',
       ssl := ''%(prefix)s4064'', sym := ''OMERO-CURRENT'',
       skipweb := ''false'', skipdelete := ''true'', skipdeletezip := ''false'',
       savevars := ''ICE_HOME PATH DYLD_LIBRARY_PATH LD_LIBRARY_PATH PYTHONPATH'',
       savevarsfile := os_path_join pf ''%(sym)s'' ''omero.envvars''\<rparr>"

definition UpgradeCommand_defaults :: "platform \<Rightarrow> args \<Rightarrow> args" where
  "UpgradeCommand_defaults pf a =
     (InstallBaseCommand_defaults pf a)\<lparr>upgradedb := False, archivelogs := None\<rparr>"

text \<open>The attributes of \<^verbatim>\<open>args\<close> as Python sees them.\<close>

definition opt_str :: "string option \<Rightarrow> pyval" where
  "opt_str x = (case x of None \<Rightarrow> PyNone | Some s \<Rightarrow> PyStr s)"

definition get_kwargs :: "args \<Rightarrow> (string \<times> pyval) list" where
  "get_kwargs a =
     [(''archivelogs'', opt_str (archivelogs a)), (''dry_run'', PyBool (dry_run a)),
      (''httppassword'', opt_str (httppassword a)), (''httpuser'', opt_str (httpuser a)),
      (''ignoreconfig'', PyBool (ignoreconfig a)), (''initdb'', PyBool (initdb a)),
      (''overwrite'', PyStr (overwrite a)), (''prefix'', PyStr (prefix a)),
      (''prestartfile'', (case prestartfile a of None \<Rightarrow> PyNone | Some l \<Rightarrow> PyList l)),
      (''registry'', PyStr (registry a)), (''savevars'', PyStr (savevars a)),
      (''savevarsfile'', PyStr (savevarsfile a)), (''server'', opt_str (server a)),
      (''skipdelete'', PyStr (skipdelete a)), (''skipdeletezip'', PyStr (skipdeletezip a)),
      (''skipunzip'', PyBool (skipunzip a)), (''skipweb'', PyStr (skipweb a)),
      (''ssl'', PyStr (ssl a)), (''sym'', PyStr (sym a)), (''tcp'', PyStr (tcp a)),
      (''unzipdir'', PyStr (unzipdir a)), (''upgradedb'', PyBool (upgradedb a)),
      (''verbose'', PyBool (verbose a))] @ extra a"

definition getattr_args :: "args \<Rightarrow> string \<Rightarrow> pyval option" where
  "getattr_args a dest = map_of (get_kwargs a) dest"

text \<open>\<^verbatim>\<open>setattr(args, dest, replacement)\<close> for a string.\<close>

definition setattr_str :: "string \<Rightarrow> string \<Rightarrow> args \<Rightarrow> args" where
  "setattr_str dest r a =
     (if dest = ''archivelogs'' then a\<lparr>archivelogs := Some r\<rparr>
      else if dest = ''httppassword'' then a\<lparr>httppassword := Some r\<rparr>
      else if dest = ''httpuser'' then a\<lparr>httpuser := Some r\<rparr>
      else if dest = ''overwrite'' then a\<lparr>overwrite := r\<rparr>
      else if dest = ''prefix'' then a\<lparr>prefix := r\<rparr>
      else if dest = ''registry'' then a\<lparr>registry := r\<rparr>
      else if dest = ''savevars'' then a\<lparr>savevars := r\<rparr>
      else if dest = ''savevarsfile'' then a\<lparr>savevarsfile := r\<rparr>
      else if dest = ''server'' then a\<lparr>server := Some r\<rparr>
      else if dest = ''skipdelete'' then a\<lparr>skipdelete := r\<rparr>
      else if dest = ''skipdeletezip'' then a\<lparr>skipdeletezip := r\<rparr>
      else if dest = ''skipweb'' then a\<lparr>skipweb := r\<rparr>
      else if dest = ''ssl'' then a\<lparr>ssl := r\<rparr>
      else if dest = ''sym'' then a\<lparr>sym := r\<rparr>
      else if dest = ''tcp'' then a\<lparr>tcp := r\<rparr>
      else if dest = ''unzipdir'' then a\<lparr>unzipdir := r\<rparr>
      else a\<lparr>extra := AList.update dest (PyStr r) (extra a)\<rparr>)"

text \<open>
  The loop of \<^verbatim>\<open>InstallBaseCommand.__call__\<close> over \<open>names\<close>, the sorted destinations of
  the parser: every non-empty string attribute is replaced by itself formatted with the
  attributes as they are at that moment.
\<close>

fun interpolate :: "external \<Rightarrow> string list \<Rightarrow> args \<Rightarrow> args io" where
  "interpolate X [] a = ret a"
| "interpolate X (dest # names) a =
     (if dest \<in> set [''help'', ''verbose'', ''quiet''] then interpolate X names a
      else (case getattr_args a dest of
              None \<Rightarrow> raise (AttributeError dest)
            | Some (PyStr val) \<Rightarrow>
                if val = [] then interpolate X names a
                else (case pyformat X val (get_kwargs a) of
                        Inl e \<Rightarrow> raise e
                      | Inr replacement \<Rightarrow>
                          seq (log_msg DEBUG ''% 20s => %s'' [dest, replacement])
                              (interpolate X names (setattr_str dest replacement a)))
            | Some other \<Rightarrow> interpolate X names a))"

text \<open>
  \<^verbatim>\<open>InstallBaseCommand.__call__\<close>; \<open>name\<close> is \<^verbatim>\<open>self.NAME\<close>, and \<^verbatim>\<open>WINDOWS\<close> holds on
  the Windows platform.
\<close>

definition InstallBaseCommand_call ::
  "platform \<Rightarrow> external \<Rightarrow> string list \<Rightarrow> string \<Rightarrow> args \<Rightarrow> unit io" where
  "InstallBaseCommand_call pf X names name a =
     seq (fsop CommandCall (command_call X a))
    (seq (fsop ConfigureLogging (configure_logging X a))
    (bnd (interpolate X names a) (\<lambda>a'.
       if dry_run a' then ret ()
       else if pf = Windows then Install pf X WindowsInstall name a'
       else Install pf X UnixInstall name a')))"

text \<open>The events a statement adds to the trace when it runs in \<open>w\<close>.\<close>

definition new_events :: "'a io \<Rightarrow> world \<Rightarrow> event list" where
  "new_events m w = drop (length (trace w)) (trace (snd (m w)))"

text \<open>
  A statement adds only events satisfying \<open>P\<close>: in every world its trace is the trace before
  followed by such events.
\<close>

definition adds_only :: "(event \<Rightarrow> bool) \<Rightarrow> 'a io \<Rightarrow> bool" where
  "adds_only P m = (\<forall>w. \<exists>evs. trace (snd (m w)) = trace w @ evs \<and> list_all P evs)"

text \<open>
  The events of the switchover: a directory tree, a file or a pointer is deleted, a pointer
  or its sidecar file is written.
\<close>

fun switch_event :: "event \<Rightarrow> bool" where
  "switch_event (Rmtree p) = True"
| "switch_event (Unlink p) = True"
| "switch_event (Rmdir p) = True"
| "switch_event (Symlink t l) = True"
| "switch_event (CreateSymbolicLink l t n) = True"
| "switch_event (WriteFile p s) = True"
| "switch_event e = False"

fun is_rmtree :: "event \<Rightarrow> bool" where
  "is_rmtree (Rmtree p) = True"
| "is_rmtree e = False"


text \<open>
  A statement always ends with an exception, having added only events satisfying \<open>P\<close>.
\<close>

definition stops_with :: "(event \<Rightarrow> bool) \<Rightarrow> 'a io \<Rightarrow> bool" where
  "stops_with P m =
     (\<forall>w. isl (fst (m w)) \<and> (\<exists>evs. trace (snd (m w)) = trace w @ evs \<and> list_all P evs))"

text \<open>
  What replaying one pre-start input adds to the trace: the log line, the resolution of
  the input, and the load command for the local path it resolved to.
\<close>

definition replay_events :: "string \<times> string \<Rightarrow> event list" where
  "replay_events fp =
     [Log INFO ''Loading prestart file %s'' [fst fp], GetAsLocalPath (fst fp) ''backup'',
      OmeroCli [''load'', snd fp]]"

text \<open>
  The events of \<^verbatim>\<open>InstallBaseCommand.__call__\<close> before it builds an installer: the two
  calls into the framework and the debug line of each interpolated option.
\<close>

fun preamble_event :: "event \<Rightarrow> bool" where
  "preamble_event CommandCall = True"
| "preamble_event ConfigureLogging = True"
| "preamble_event (Log l fmt as) = (l = DEBUG \<and> fmt = ''% 20s => %s'')"
| "preamble_event e = False"

text \<open>
  The first command of \<^verbatim>\<open>stopweb\<close> and of \<^verbatim>\<open>startweb\<close> in each class.
\<close>

definition web_stop_command :: "variant \<Rightarrow> string list" where
  "web_stop_command v =
     (case v of UnixInstall \<Rightarrow> [''web'', ''stop''] | WindowsInstall \<Rightarrow> [''web'', ''iis'', ''--remove''])"

definition web_start_command :: "variant \<Rightarrow> string list" where
  "web_start_command v =
     (case v of UnixInstall \<Rightarrow> [''web'', ''start''] | WindowsInstall \<Rightarrow> [''web'', ''iis''])"

text \<open>
  The events of removing and creating the pointer, and the error lines.
\<close>

fun pointer_event :: "event \<Rightarrow> bool" where
  "pointer_event (Unlink p) = True"
| "pointer_event (Rmdir p) = True"
| "pointer_event (Symlink t l) = True"
| "pointer_event (CreateSymbolicLink l t n) = True"
| "pointer_event (WriteFile p s) = True"
| "pointer_event (Log l fmt as) = (l = ERROR)"
| "pointer_event e = False"




text \<open>
  The local paths that the pre-start inputs resolve to, each one resolved in the file
  system that the replay of the inputs before it has left.
\<close>

fun local_paths :: "external \<Rightarrow> string list \<Rightarrow> filesystem \<Rightarrow> string list" where
  "local_paths X [] f0 = []"
| "local_paths X (f # files) f0 =
     (case fileutils_get_as_local_path X f ''backup'' 0 None None f0 of
        (Inl e, f1) \<Rightarrow> []
      | (Inr (ftype, fpath), f1) \<Rightarrow>
          fpath # local_paths X files (snd (omero_cli X [''load'', fpath] f1)))"

section \<open>Concrete worlds\<close>

text \<open>
  Collaborators that succeed and leave the file system alone. An input of
  \<^verbatim>\<open>get_as_local_path\<close> is a directory or a file as the file system says; formatting
  leaves a string as it is.
\<close>

definition ext_ok :: "platform \<Rightarrow> external" where
  "ext_ok pf =
     \<lparr>artifacts_download = (\<lambda>a f. (Inr ''OMERO.server'', f)),
      fileutils_get_as_local_path =
        (\<lambda>p ow pr u pw f. (Inr (if os_path_isdir pf f p then ''directory'' else ''file'', p), f)),
      fileutils_unzip = (\<lambda>z d f. (Inr z, f)),
      fileutils_zip = (\<lambda>ar l b f. (Inr (), f)),
      external_init = (\<lambda>d f. (Inr (), f)),
      setup_omero_cli = (\<lambda>f. (Inr (), f)),
      setup_previous_omero_env = (\<lambda>s v f. (Inr (), f)),
      save_env_vars = (\<lambda>v ns f. (Inr (), f)),
      omero_cli = (\<lambda>c f. (Inr (), f)),
      omero_bin = (\<lambda>c f. (Inr (), f)),
      external_run = (\<lambda>c as f. (Inr (), f)),
      db_admin = (\<lambda>d c a f. (Inr (), f)),
      command_call = (\<lambda>a f. (Inr (), f)),
      configure_logging = (\<lambda>a f. (Inr (), f)),
      pyformat = (\<lambda>v kw. Inr v),
      tempfile_name = (\<lambda>f d. ''tmpomego'')\<rparr>"

text \<open>The arguments of an upgrade with every option at its default.\<close>

definition args0 :: "platform \<Rightarrow> args" where
  "args0 pf = UpgradeCommand_defaults pf
     \<lparr>archivelogs = None, dry_run = False, httppassword = None, httpuser = None,
      ignoreconfig = False, initdb = False, overwrite = ''error'', prefix = [],
      prestartfile = None, registry = [], savevars = [], savevarsfile = [],
      server = None, skipdelete = [], skipdeletezip = [], skipunzip = False,
      skipweb = [], ssl = [], sym = [], tcp = [], unzipdir = [], upgradedb = False,
      verbose = False, extra = []\<rparr>"

text \<open>
  In \<^verbatim>\<open>/srv\<close>: the previous instance \<^verbatim>\<open>A\<close> with its configuration and its archive
  \<^verbatim>\<open>A.zip\<close>, the new instance \<^verbatim>\<open>B\<close>, and the pointer \<^verbatim>\<open>OMERO-CURRENT\<close> to \<^verbatim>\<open>A\<close>.
\<close>

definition fs0 :: filesystem where
  "fs0 = \<lparr>cwd = [''srv''], superuser = False,
          nodes = [([''srv''], Dir),
                   ([''srv'', ''A''], Dir),
                   ([''srv'', ''A'', ''etc''], Dir),
                   ([''srv'', ''A'', ''etc'', ''grid''], Dir),
                   ([''srv'', ''A'', ''etc'', ''grid'', ''config.xml''], File ReadWrite ''old''),
                   ([''srv'', ''A.zip''], File ReadWrite ''zip''),
                   ([''srv'', ''B''], Dir),
                   ([''srv'', ''B'', ''etc''], Dir),
                   ([''srv'', ''B'', ''etc'', ''grid''], Dir),
                   ([''srv'', ''OMERO-CURRENT''], Link ''A'')]\<rparr>"

definition w0 :: world where
  "w0 = \<lparr>fs = fs0, trace = []\<rparr>"


text \<open>
  In \<^verbatim>\<open>/srv\<close>: the new instance \<^verbatim>\<open>B\<close>, and \<^verbatim>\<open>OMERO-CURRENT\<close> a plain directory, not
  a symbolic link.
\<close>

definition fs_plain :: filesystem where
  "fs_plain = \<lparr>cwd = [''srv''], superuser = False,
          nodes = [([''srv''], Dir),
                   ([''srv'', ''B''], Dir),
                   ([''srv'', ''OMERO-CURRENT''], Dir),
                   ([''srv'', ''OMERO-CURRENT'', ''etc''], Dir)]\<rparr>"

definition w_plain :: world where
  "w_plain = \<lparr>fs = fs_plain, trace = []\<rparr>"

text \<open>In \<^verbatim>\<open>/srv\<close>: two pre-start files and a directory.\<close>

definition fs_pre :: filesystem where
  "fs_pre = \<lparr>cwd = [''srv''], superuser = False,
             nodes = [([''srv''], Dir),
                      ([''srv'', ''a.omero''], File ReadWrite ''config set a 1''),
                      ([''srv'', ''d''], Dir),
                      ([''srv'', ''b.omero''], File ReadWrite ''config set b 2'')]\<rparr>"

definition w_pre :: world where
  "w_pre = \<lparr>fs = fs_pre, trace = []\<rparr>"

text \<open>In \<^verbatim>\<open>/srv\<close>: an unpacked server and no pointer yet.\<close>

definition fs_new :: filesystem where
  "fs_new = \<lparr>cwd = [''srv''], superuser = False,
             nodes = [([''srv''], Dir),
                      ([''srv'', ''OMERO.server''], Dir)]\<rparr>"

definition w_new :: world where
  "w_new = \<lparr>fs = fs_new, trace = []\<rparr>"



text \<open>
  The same collaborators, but \<^verbatim>\<open>get_as_local_path\<close> fetches an input into a local
  directory \<^verbatim>\<open>cache\<close>: the local path is not the input.
\<close>

definition ext_cache :: "platform \<Rightarrow> external" where
  "ext_cache pf =
     (ext_ok pf)\<lparr>fileutils_get_as_local_path :=
        (\<lambda>p ow pr u pw f.
           (Inr (if os_path_isdir pf f p then ''directory'' else ''file'', ''cache/'' @ p), f))\<rparr>"

text \<open>Options that do not lowercase to \<^verbatim>\<open>false\<close>, and one that does.\<close>

definition args_skip :: args where
  "args_skip = (args0 Posix)\<lparr>skipdelete := ''False'', skipdeletezip := ''no'', skipweb := ''0''\<rparr>"

section \<open>Sequencing and the trace\<close>

lemmas io_defs = ret_def raise_def bnd_def seq_def try_except_def on_exit_def log_msg_def
  fsop_def query_def query_ok_def

lemma adds_onlyD:
  assumes "adds_only P m"
  shows "trace (snd (m w)) = trace w @ new_events m w \<and> list_all P (new_events m w)"
proof -
  from assms obtain evs where "trace (snd (m w)) = trace w @ evs" "list_all P evs"
    unfolding adds_only_def by blast
  then show ?thesis by (simp add: new_events_def)
qed

lemma adds_only_ret: "adds_only P (ret x)"
  by (simp add: adds_only_def ret_def)

lemma adds_only_raise: "adds_only P (raise e)"
  by (simp add: adds_only_def raise_def)

lemma adds_only_log: "P (Log l f as) \<Longrightarrow> adds_only P (log_msg l f as)"
  by (simp add: adds_only_def log_msg_def)

lemma adds_only_fsop: "P ev \<Longrightarrow> adds_only P (fsop ev g)"
  by (simp add: adds_only_def fsop_def split: prod.splits)

lemma adds_only_query: "adds_only P (query g)"
  by (simp add: adds_only_def query_def)

lemma adds_only_query_ok: "adds_only P (query_ok g)"
  by (simp add: adds_only_def query_ok_def)

lemma adds_only_bnd:
  assumes "adds_only P m" and "\<And>x. adds_only P (k x)"
  shows "adds_only P (bnd m k)"
proof (unfold adds_only_def, intro allI)
  fix w
  from assms(1) obtain e1 where m: "trace (snd (m w)) = trace w @ e1" "list_all P e1"
    unfolding adds_only_def by blast
  show "\<exists>evs. trace (snd (bnd m k w)) = trace w @ evs \<and> list_all P evs"
  proof (cases "m w")
    case (Pair r w1)
    show ?thesis
    proof (cases r)
      case (Inl e)
      with Pair m show ?thesis by (auto simp: bnd_def)
    next
      case (Inr x)
      from assms(2)[of x] obtain e2 where
        "trace (snd (k x w1)) = trace w1 @ e2" "list_all P e2"
        unfolding adds_only_def by blast
      with Pair Inr m show ?thesis by (auto simp: bnd_def)
    qed
  qed
qed

lemma adds_only_seq:
  "adds_only P m \<Longrightarrow> adds_only P k \<Longrightarrow> adds_only P (seq m k)"
  by (simp add: seq_def adds_only_bnd)

lemma adds_only_try:
  assumes "adds_only P m" and "\<And>e k. h e = Some k \<Longrightarrow> adds_only P k"
  shows "adds_only P (try_except m h)"
proof (unfold adds_only_def, intro allI)
  fix w
  from assms(1) obtain e1 where m: "trace (snd (m w)) = trace w @ e1" "list_all P e1"
    unfolding adds_only_def by blast
  show "\<exists>evs. trace (snd (try_except m h w)) = trace w @ evs \<and> list_all P evs"
  proof (cases "m w")
    case (Pair r w1)
    show ?thesis
    proof (cases r)
      case (Inr x)
      with Pair m show ?thesis by (auto simp: try_except_def)
    next
      case (Inl e)
      show ?thesis
      proof (cases "h e")
        case None
        with Pair Inl m show ?thesis by (auto simp: try_except_def)
      next
        case (Some k)
        from assms(2)[OF Some] obtain e2 where
          "trace (snd (k w1)) = trace w1 @ e2" "list_all P e2"
          unfolding adds_only_def by blast
        with Pair Inl Some m show ?thesis by (auto simp: try_except_def)
      qed
    qed
  qed
qed

lemma adds_only_on_exit:
  assumes "adds_only P m" and "adds_only P c"
  shows "adds_only P (on_exit m c)"
proof (unfold adds_only_def, intro allI)
  fix w
  from assms(1) obtain e1 where m: "trace (snd (m w)) = trace w @ e1" "list_all P e1"
    unfolding adds_only_def by blast
  obtain r w1 where mw: "m w = (r, w1)" by (cases "m w")
  from assms(2) obtain e2 where c: "trace (snd (c w1)) = trace w1 @ e2" "list_all P e2"
    unfolding adds_only_def by blast
  obtain r2 w2 where cw: "c w1 = (r2, w2)" by (cases "c w1")
  from m mw c cw show "\<exists>evs. trace (snd (on_exit m c w)) = trace w @ evs \<and> list_all P evs"
    by (cases r2) (auto simp: on_exit_def)
qed

lemmas adds_only_intros = adds_only_ret adds_only_raise adds_only_log adds_only_fsop
  adds_only_query adds_only_query_ok adds_only_bnd adds_only_seq adds_only_try adds_only_on_exit

lemma adds_only_samedir:
  assumes "\<And>n. P (TempCreate n)" "\<And>n. P (TempDelete n)"
  shows "adds_only P (samedir pf X v d l)"
  unfolding samedir_def named_temporary_file_def
  by (auto intro!: adds_only_intros assms split: variant.splits exn.splits)


section \<open>Facts about the file system\<close>

lemma delete_update_fresh:
  "map_of al k = None \<Longrightarrow> AList.delete k (AList.update k v al) = al"
  by (induction al) (auto split: if_splits)

lemma walk_upd_file:
  assumes "ns q = None \<or> (\<exists>m c. ns q = Some (File m c))"
  shows "walk pf (ns(q \<mapsto> File k s)) follow fuel cur cs = walk pf ns follow fuel cur cs"
  using assms
proof (induction pf ns follow fuel cur cs rule: walk.induct)
  case (1 pf ns follow fuel cur)
  then show ?case by simp
next
  case (2 pf ns follow fuel cur c cs)
  show ?case
  proof (cases "c = [] \<or> c = ''.''")
    case True
    with 2 show ?thesis by auto
  next
    case nd: False
    show ?thesis
    proof (cases "c = ''..''")
      case True
      with nd 2 show ?thesis by auto
    next
      case ndd: False
      show ?thesis
      proof (cases "ns (cur @ [c])")
        case None
        with nd ndd show ?thesis by auto
      next
        case (Some n)
        show ?thesis
        proof (cases n)
          case Dir
          with nd ndd Some 2 show ?thesis by auto
        next
          case (File m x)
          with nd ndd Some show ?thesis by auto
        next
          case (Link t)
          have neq: "cur @ [c] \<noteq> q" using Some Link "2.prems" by auto
          show ?thesis
          proof (cases fuel)
            case 0
            with nd ndd Some Link neq show ?thesis by simp
          next
            case (Suc n')
            show ?thesis
            proof (cases "t = [] \<or> (cs = [] \<and> \<not> follow)")
              case True
              with nd ndd Some Link neq Suc show ?thesis by auto
            next
              case False
              then have nf: "\<not> (cs = [] \<and> \<not> follow)" and tne: "t \<noteq> []" by auto
              have "walk pf (ns(q \<mapsto> File k s)) follow n' (if isabs pf t then [] else cur) (comps pf t @ cs)
                       = walk pf ns follow n' (if isabs pf t then [] else cur) (comps pf t @ cs)"
                by (rule "2.IH"(4)[OF nd ndd Some Link nf Suc tne "2.prems"])
              moreover have "(ns(q \<mapsto> File k s)) (cur @ [c]) = Some (Link t)"
                using neq Some Link by simp
              ultimately show ?thesis
                using nd ndd Some Link Suc nf tne by (auto simp del: fun_upd_apply)
            qed
          qed
        qed
      qed
    qed
  qed
qed

lemma resolve_set_node_file:
  assumes "map_of (nodes f) q = None \<or> (\<exists>m c. map_of (nodes f) q = Some (File m c))"
  shows "resolve pf (set_node q (File k s) f) follow p = resolve pf f follow p"
  using assms by (simp add: resolve_def set_node_def update_conv' walk_upd_file)

lemma node_at_set_node:
  "q \<noteq> [] \<Longrightarrow> node_at (map_of (nodes (set_node q n f))) q' = (if q' = q then Some n else node_at (map_of (nodes f)) q')"
  by (simp add: node_at_def set_node_def update_conv')

lemma del_set_node_fresh:
  "map_of (nodes f) q = None \<Longrightarrow> del_node q (set_node q n f) = f"
  by (simp add: del_node_def set_node_def delete_update_fresh)

lemma tempfile_create_ok:
  assumes "tempfile_create pf p f = (Inr u, f1)"
  shows "\<exists>q. resolve pf f False p = Some q \<and> map_of (nodes f) q = None \<and> q \<noteq> []
             \<and> f1 = set_node q (File ReadWrite []) f"
  using assms
  by (auto simp: tempfile_create_def node_at_def split: option.splits if_splits)

lemma unlink_created:
  assumes "resolve pf f False p = Some q" "map_of (nodes f) q = None" "q \<noteq> []"
  shows "os_unlink pf p (set_node q (File ReadWrite []) f) = (Inr (), f)"
  using assms
  by (simp add: os_unlink_def stat_path_def resolve_set_node_file node_at_set_node del_set_node_fresh)

lemma named_temporary_file_query_fs:
  assumes "named_temporary_file pf X d (\<lambda>name. query_ok (g name)) w = (Inr b, w1)"
  shows "fs w1 = fs w"
proof -
  let ?name = "os_path_join pf d (tempfile_name X (fs w) d)"
  obtain r f1 where tc: "tempfile_create pf ?name (fs w) = (r, f1)"
    by (cases "tempfile_create pf ?name (fs w)")
  show ?thesis
  proof (cases r)
    case (Inl e)
    with assms tc show ?thesis
      by (simp add: named_temporary_file_def io_defs)
  next
    case (Inr u)
    with tc obtain q where q: "resolve pf (fs w) False ?name = Some q"
      "map_of (nodes (fs w)) q = None" "q \<noteq> []" "f1 = set_node q (File ReadWrite []) (fs w)"
      using tempfile_create_ok by blast
    from unlink_created[OF q(1-3)] q(4)
    have "os_unlink pf ?name f1 = (Inr (), fs w)" by simp
    with assms tc Inr show ?thesis
      by (auto simp: named_temporary_file_def io_defs split: sum.splits prod.splits)
  qed
qed

lemma samedir_fs:
  assumes "samedir pf X v d l w = (Inr b, w1)"
  shows "fs w1 = fs w"
proof (cases v)
  case UnixInstall
  with assms show ?thesis by (auto simp: samedir_def io_defs)
next
  case WindowsInstall
  show ?thesis
  proof (cases "os_path_samefile pf (fs w) d l")
    case (Inr x)
    with assms WindowsInstall show ?thesis by (auto simp: samedir_def io_defs)
  next
    case (Inl e)
    show ?thesis
    proof (cases e)
      case (AttributeError m)
      with assms WindowsInstall Inl
      have "named_temporary_file pf X d (\<lambda>name. query_ok (\<lambda>f. os_path_exists pf f
              (os_path_join pf l (os_path_basename pf name)))) w = (Inr b, w1)"
        by (simp add: samedir_def try_except_def query_def)
      then show ?thesis by (rule named_temporary_file_query_fs)
    qed (use assms WindowsInstall Inl in \<open>auto simp: samedir_def try_except_def query_def\<close>)
  qed
qed

lemma py_lower_true: "py_lower ''true'' = ''true''"
  by (simp add: py_lower_def lower_char_def)

lemma adds_only_run: "P (OmeroCli (command_list c)) \<Longrightarrow> adds_only P (run X c)"
  by (simp add: run_def adds_only_fsop)

lemma adds_only_bin: "P (OmeroBin (command_list c)) \<Longrightarrow> adds_only P (bin X c)"
  by (simp add: bin_def adds_only_fsop)

lemma no_rmtree_stop: "adds_only (\<lambda>e. \<not> is_rmtree e) (stop X v a)"
  unfolding stop_def stopweb_def iisreset_def
  by (auto intro!: adds_only_intros adds_only_run adds_only_bin split: variant.splits)

lemma no_rmtree_start: "adds_only (\<lambda>e. \<not> is_rmtree e) (start X v a)"
  unfolding start_def startweb_def iisreset_def
  by (auto intro!: adds_only_intros adds_only_run adds_only_bin split: variant.splits)

lemma no_rmtree_get_server_dir: "adds_only (\<lambda>e. \<not> is_rmtree e) (get_server_dir X a)"
  unfolding get_server_dir_def
  by (auto intro!: adds_only_intros split: option.splits prod.splits)

lemma no_rmtree_load_prestart: "adds_only (\<lambda>e. \<not> is_rmtree e) (load_prestart X files)"
  by (induction files) (auto intro!: adds_only_intros adds_only_run split: prod.splits)

lemma no_rmtree_configure: "adds_only (\<lambda>e. \<not> is_rmtree e) (configure pf X d a c p)"
  unfolding configure_def samecontents_def configure_ports_def Let_def
  by (auto intro!: adds_only_intros adds_only_run no_rmtree_load_prestart
           split: option.splits exn.splits)

lemma no_rmtree_archive_logs: "adds_only (\<lambda>e. \<not> is_rmtree e) (archive_logs pf X a)"
  unfolding archive_logs_def Let_def
  by (auto intro!: adds_only_intros split: option.splits)

lemma no_rmtree_symlink: "adds_only (\<lambda>e. \<not> is_rmtree e) (symlink pf v t l)"
  unfolding symlink_def py_os_symlink_def Let_def
  by (auto intro!: adds_only_intros split: variant.splits exn.splits)

lemma no_rmtree_rmlink: "adds_only (\<lambda>e. \<not> is_rmtree e) (rmlink pf v l)"
  unfolding rmlink_def
  by (auto intro!: adds_only_intros split: variant.splits exn.splits)

lemma no_rmtree_readlink: "adds_only (\<lambda>e. \<not> is_rmtree e) (readlink pf v l)"
  unfolding readlink_def
  by (auto intro!: adds_only_intros split: variant.splits exn.splits)

lemma no_rmtree_directories:
  assumes "py_lower (skipdelete a) \<noteq> ''false''"
  shows "adds_only (\<lambda>e. \<not> is_rmtree e) (directories pf X v d a)"
  unfolding directories_def
  using assms
  by (auto intro!: adds_only_intros adds_only_samedir no_rmtree_readlink no_rmtree_rmlink
                   no_rmtree_symlink
           split: option.splits exn.splits prod.splits)

lemma no_rmtree_db: "adds_only (\<lambda>e. \<not> is_rmtree e) (init_db X d a)"
  "adds_only (\<lambda>e. \<not> is_rmtree e) (upgrade_db X d a)"
  unfolding init_db_def upgrade_db_def
  by (auto intro!: adds_only_intros)

lemma adds_only_if:
  "adds_only P m \<Longrightarrow> adds_only P k \<Longrightarrow> adds_only P (if c then m else k)"
  by simp

lemma no_rmtree_Install:
  assumes "py_lower (skipdelete a) \<noteq> ''false''"
  shows "adds_only (\<lambda>e. \<not> is_rmtree e) (Install pf X v cmd a)"
  unfolding Install_def
  by (intro adds_only_intros adds_only_if no_rmtree_get_server_dir no_rmtree_symlink no_rmtree_stop
        no_rmtree_archive_logs no_rmtree_configure no_rmtree_directories[OF assms] no_rmtree_db
        no_rmtree_start) simp_all


lemma stops_with_adds_only: "stops_with P m \<Longrightarrow> adds_only P m"
  by (auto simp: stops_with_def adds_only_def)












text \<open>
  What \<^verbatim>\<open>directories\<close> does when \<^verbatim>\<open>readlink\<close> raises: an \<^verbatim>\<open>IOError\<close> is logged, both
  deletions are skipped and the pointer is removed and recreated; an \<^verbatim>\<open>OSError\<close> leaves the
  function.
\<close>

lemma directories_ioerror_continues:
  assumes "samedir pf X v dir (sym a) w = (Inr False, w1)"
    and "readlink pf v (sym a) w1 = (Inl (IOError m), w2)"
  shows "directories pf X v dir a w =
           seq (rmlink pf v (sym a)) (symlink pf v dir (sym a))
             (w2\<lparr>trace := trace w2 @ [Log ERROR ''Unable to get symlink target: %s'' [sym a]]\<rparr>)"
  using assms by (simp add: directories_def io_defs)

lemma directories_oserror_propagates:
  assumes "samedir pf X v dir (sym a) w = (Inr False, w1)"
    and "readlink pf v (sym a) w1 = (Inl (OSError m), w2)"
  shows "directories pf X v dir a w = (Inl (OSError m), w2)"
  using assms by (simp add: directories_def io_defs)

lemma load_prestart_append:
  "load_prestart X (xs @ ys) w = seq (load_prestart X xs) (load_prestart X ys) w"
proof (induction xs arbitrary: w)
  case Nil
  show ?case by (simp add: io_defs)
next
  case (Cons x xs)
  then show ?case
    by (simp add: io_defs run_def split: prod.splits sum.splits)
qed

lemma load_prestart_local_paths:
  assumes "load_prestart X files w = (Inr u, w')"
  shows "length (local_paths X files (fs w)) = length files
         \<and> trace w' = trace w @ concat (map replay_events (zip files (local_paths X files (fs w))))"
  using assms
proof (induction files arbitrary: w)
  case Nil
  then show ?case by (simp add: ret_def)
next
  case (Cons f files)
  let ?g = "fileutils_get_as_local_path X f ''backup'' 0 None None (fs w)"
  obtain r f1 where g: "?g = (r, f1)" by (cases ?g)
  from Cons.prems g obtain fpath where r: "r = Inr (''file'', fpath)"
    by (cases r) (auto simp: io_defs split: if_splits)
  let ?o = "omero_cli X [''load'', fpath] f1"
  obtain r2 f2 where o: "?o = (r2, f2)" by (cases ?o)
  let ?w2 = "\<lparr>fs = f2, trace = trace w @ replay_events (f, fpath)\<rparr>"
  from Cons.prems g r o have rest: "load_prestart X files ?w2 = (Inr u, w')"
    by (cases r2) (auto simp: io_defs run_def command_list_def replay_events_def)
  have lp: "local_paths X (f # files) (fs w) = fpath # local_paths X files f2"
    using g r o by simp
  from Cons.IH[OF rest] have "length (local_paths X files f2) = length files"
    "trace w' = trace ?w2 @ concat (map replay_events (zip files (local_paths X files f2)))"
    by simp_all
  then show ?case unfolding lp by simp
qed

lemma load_prestart_step:
  assumes "fileutils_get_as_local_path X f ''backup'' 0 None None (fs w1) = (r, f2)"
  shows "load_prestart X (f # post) w1 =
        (case r of
           Inl e \<Rightarrow>
             (Inl e, \<lparr>fs = f2, trace = trace w1 @ [Log INFO ''Loading prestart file %s'' [f],
                                                   GetAsLocalPath f ''backup'']\<rparr>)
         | Inr (ftype, fpath) \<Rightarrow>
             if ftype \<noteq> ''file'' then
               (Inl (Stop 50 (''Expected file, found: '' @ ftype @ '' '' @ f)),
                \<lparr>fs = f2, trace = trace w1 @ [Log INFO ''Loading prestart file %s'' [f],
                                              GetAsLocalPath f ''backup'']\<rparr>)
             else (case omero_cli X [''load'', fpath] f2 of
                     (Inl e, f3) \<Rightarrow>
                       (Inl e, \<lparr>fs = f3, trace = trace w1 @ replay_events (f, fpath)\<rparr>)
                   | (Inr u, f3) \<Rightarrow>
                       load_prestart X post
                         \<lparr>fs = f3, trace = trace w1 @ replay_events (f, fpath)\<rparr>))"
  using assms
  by (auto simp: io_defs run_def command_list_def replay_events_def
           split: sum.splits prod.splits)

lemma open_write_read:
  assumes "open_write pf p s f = (Inr u, f')"
  shows "open_read pf f' p = Inr s"
proof -
  from assms obtain q k where q: "resolve pf f True p = Some q"
    and n: "node_at (map_of (nodes f)) q = None \<or> (\<exists>m c. node_at (map_of (nodes f)) q = Some (File m c))"
    and f': "f' = set_node q (File k s) f"
    by (auto simp: open_write_def split: option.splits node.splits if_splits)
  from n have ne: "q \<noteq> []" by (auto simp: node_at_def split: if_splits)
  with n have "map_of (nodes f) q = None \<or> (\<exists>m c. map_of (nodes f) q = Some (File m c))"
    by (simp add: node_at_def)
  then have "resolve pf f' True p = Some q"
    using q f' by (simp add: resolve_set_node_file)
  then show ?thesis
    using ne f' by (simp add: open_read_def stat_path_def node_at_set_node)
qed

lemma seq_fsop_result:
  assumes "seq m (fsop ev g) w = (Inr u, w1)"
  shows "\<exists>f1. g f1 = (Inr u, fs w1)"
proof (cases "m w")
  case (Pair r w')
  show ?thesis
  proof (cases r)
    case (Inl e)
    with Pair assms show ?thesis by (simp add: seq_def bnd_def)
  next
    case (Inr x)
    with Pair assms have "fsop ev g w' = (Inr u, w1)" by (simp add: seq_def bnd_def)
    then have "g (fs w') = (Inr u, fs w1)"
      by (cases "g (fs w')") (auto simp: fsop_def)
    then show ?thesis by blast
  qed
qed

lemma symlink_windows:
  "symlink Windows WindowsInstall targetdir link w =
     seq (try_except
            (fsop (CreateSymbolicLink link targetdir (if os_path_isdir Windows (fs w) targetdir then 1 else 0))
               (win32file_CreateSymbolicLink Windows link targetdir
                  (if os_path_isdir Windows (fs w) targetdir then 1 else 0)))
            (\<lambda>e'. Some (seq (log_msg ERROR ''Failed to symlink %s to %s: %s''
                              [targetdir, link, str_exn e'])
                           (raise e'))))
         (fsop (WriteFile (link @ ''.target'') targetdir)
            (open_write Windows (link @ ''.target'') targetdir)) w"
  by (simp add: symlink_def py_os_symlink_def try_except_def raise_def bnd_def query_ok_def Let_def)

lemma dry_run_setattr_str: "dry_run (setattr_str dest r a) = dry_run a"
  by (simp add: setattr_str_def)

lemma interpolate_dry_run:
  assumes "interpolate X names a w = (Inr a', w')"
  shows "dry_run a' = dry_run a"
  using assms
proof (induction names arbitrary: a w)
  case Nil
  then show ?case by (simp add: ret_def)
next
  case (Cons dest names)
  show ?case
  proof (cases "dest \<in> set [''help'', ''verbose'', ''quiet'']")
    case True
    with Cons show ?thesis by simp
  next
    case nh: False
    show ?thesis
    proof (cases "getattr_args a dest")
      case None
      with nh Cons.prems show ?thesis by (simp add: raise_def)
    next
      case (Some v)
      show ?thesis
      proof (cases v)
        case (PyStr val)
        show ?thesis
        proof (cases "val = []")
          case True
          with nh Some PyStr Cons show ?thesis by simp
        next
          case ne: False
          show ?thesis
          proof (cases "pyformat X val (get_kwargs a)")
            case (Inl e)
            with nh Some PyStr ne Cons.prems show ?thesis by (simp add: raise_def)
          next
            case (Inr replacement)
            with nh Some PyStr ne Cons.prems
            have "interpolate X names (setattr_str dest replacement a)
                    (w\<lparr>trace := trace w @ [Log DEBUG ''% 20s => %s'' [dest, replacement]]\<rparr>) = (Inr a', w')"
              by (simp add: io_defs)
            from Cons.IH[OF this] show ?thesis by (simp add: dry_run_setattr_str)
          qed
        qed
      qed (use nh Some Cons in auto)
    qed
  qed
qed

lemma adds_only_interpolate: "adds_only preamble_event (interpolate X names a)"
proof (induction names arbitrary: a)
  case Nil
  show ?case by (simp add: adds_only_ret)
next
  case (Cons dest names)
  show ?case
    by (auto intro!: adds_only_intros Cons split: option.splits pyval.splits sum.splits)
qed

lemma command_lists:
  "command_list (CmdStr ''web stop'') = [''web'', ''stop'']"
  "command_list (CmdStr ''web iis --remove'') = [''web'', ''iis'', ''--remove'']"
  "command_list (CmdStr ''web start'') = [''web'', ''start'']"
  "command_list (CmdStr ''web iis'') = [''web'', ''iis'']"
  "command_list (CmdStr ''admin start'') = [''admin'', ''start'']"
  "command_list (CmdStr ''admin stop'') = [''admin'', ''stop'']"
  "command_list (CmdStr ''admin status --nodeonly'') = [''admin'', ''status'', ''--nodeonly'']"
  by (simp_all add: command_list_def split_ws_def is_space_def)

lemma stop_web_gate:
  "OmeroBin (web_stop_command v) \<in> set (new_events (stop X v a) w)
     \<longleftrightarrow> py_lower (skipweb a) = ''false''"
  by (cases v)
     (auto simp: stop_def stopweb_def iisreset_def web_def bin_def command_lists
                 web_stop_command_def new_events_def io_defs
           split: prod.splits sum.splits)

lemma start_web_gate:
  "OmeroCli (web_start_command v) \<in> set (new_events (start X v a) w)
     \<longleftrightarrow> py_lower (skipweb a) = ''false'' \<and> \<not> isl (fst (omero_cli X [''admin'', ''start''] (fs w)))"
  by (cases v)
     (auto simp: start_def startweb_def iisreset_def web_def run_def command_lists
                 web_start_command_def new_events_def io_defs
           split: prod.splits sum.splits)


lemma adds_only_mono:
  assumes "adds_only P m" and "\<And>e. P e \<Longrightarrow> Q e"
  shows "adds_only Q m"
  using assms unfolding adds_only_def list_all_iff by metis

lemma adds_only_result:
  assumes "adds_only P m" and "m w = (r, w')"
  shows "\<exists>evs. trace w' = trace w @ evs \<and> list_all P evs"
  using assms unfolding adds_only_def by (metis snd_conv)

lemma pointer_rmlink: "adds_only pointer_event (rmlink pf v l)"
  unfolding rmlink_def
  by (auto intro!: adds_only_intros split: variant.splits exn.splits)

lemma pointer_symlink: "adds_only pointer_event (symlink pf v t l)"
  unfolding symlink_def py_os_symlink_def Let_def
  by (auto intro!: adds_only_intros split: variant.splits exn.splits)

lemma readlink_world:
  assumes "readlink pf v l w = (r, w')"
  shows "w' = w"
  using assms
  by (cases v; cases "os_readlink pf (fs w) l")
     (auto simp: readlink_def io_defs split: exn.splits sum.splits)

lemma shutil_rmtree_raises:
  assumes "shutil_rmtree pf p f = (Inl e, f')"
  shows "\<exists>m. e = OSError m"
  using assms
  by (auto simp: shutil_rmtree_def split: option.splits node.splits if_splits prod.splits)

lemma os_unlink_raises:
  assumes "os_unlink pf p f = (Inl e, f')"
  shows "\<exists>m. e = OSError m"
  using assms
  by (auto simp: os_unlink_def split: option.splits node.splits if_splits prod.splits)

lemma guarded_delete:
  assumes "\<And>f e f'. g f = (Inl e, f') \<Longrightarrow> \<exists>m. e = OSError m"
  shows "\<exists>w' evs.
           try_except (seq (log_msg INFO ''Deleting %s'' [t]) (fsop ev g))
             (\<lambda>e. case e of
                     OSError m \<Rightarrow> Some (log_msg ERROR ''Failed to delete %s: %s'' [t, str_exn e])
                   | _ \<Rightarrow> None) w = (Inr (), w')
           \<and> trace w' = trace w @ Log INFO ''Deleting %s'' [t] # ev # evs
           \<and> list_all (\<lambda>e. \<exists>x. e = Log ERROR ''Failed to delete %s: %s'' x) evs"
proof -
  obtain r f' where g: "g (fs w) = (r, f')" by (cases "g (fs w)")
  show ?thesis
  proof (cases r)
    case (Inr u)
    with g show ?thesis by (simp add: io_defs)
  next
    case (Inl e)
    with g assms obtain m where "e = OSError m" by blast
    with g Inl show ?thesis by (simp add: io_defs)
  qed
qed

lemma bnd_Inr: "m w = (Inr x, w') \<Longrightarrow> bnd m k w = k x w'"
  by (simp add: bnd_def)

lemma try_Inr: "m w = (Inr x, w') \<Longrightarrow> try_except m h w = (Inr x, w')"
  by (simp add: try_except_def)

lemma directories_after_readlink:
  assumes "samedir pf X v dir (sym a) w = (Inr False, w1)"
    and "readlink pf v (sym a) w1 = (Inr t, w2)" and "t \<noteq> []"
  shows "directories pf X v dir a w =
     seq (if ''false'' = py_lower (skipdelete a) then
            try_except
              (seq (log_msg INFO ''Deleting %s'' [t]) (fsop (Rmtree t) (shutil_rmtree pf t)))
              (\<lambda>e. case e of
                      OSError m \<Rightarrow> Some (log_msg ERROR ''Failed to delete %s: %s'' [t, str_exn e])
                    | _ \<Rightarrow> None)
          else ret ())
    (seq (if ''false'' = py_lower (skipdeletezip a) then
            try_except
              (seq (log_msg INFO ''Deleting %s'' [t @ ''.zip''])
                   (fsop (Unlink (t @ ''.zip'')) (os_unlink pf (t @ ''.zip''))))
              (\<lambda>e. case e of
                      OSError m \<Rightarrow>
                        Some (log_msg ERROR ''Failed to delete %s: %s'' [t @ ''.zip'', str_exn e])
                    | _ \<Rightarrow> None)
          else ret ())
    (seq (rmlink pf v (sym a)) (symlink pf v dir (sym a)))) w2"
proof -
  let ?h = "\<lambda>e. case e of
                 IOError m \<Rightarrow>
                   Some (seq (log_msg ERROR ''Unable to get symlink target: %s'' [sym a])
                             (ret (None, None)))
               | _ \<Rightarrow> None"
  let ?k = "(\<lambda>(target, targetzip).
         seq (case target of
                None \<Rightarrow> ret ()
              | Some t \<Rightarrow>
                  if ''false'' = py_lower (skipdelete a) \<and> t \<noteq> [] then
                    try_except
                      (seq (log_msg INFO ''Deleting %s'' [t]) (fsop (Rmtree t) (shutil_rmtree pf t)))
                      (\<lambda>e. case e of
                              OSError m \<Rightarrow>
                                Some (log_msg ERROR ''Failed to delete %s: %s'' [t, str_exn e])
                            | _ \<Rightarrow> None)
                  else ret ())
        (seq (case targetzip of
                None \<Rightarrow> ret ()
              | Some z \<Rightarrow>
                  if ''false'' = py_lower (skipdeletezip a) \<and> z \<noteq> [] then
                    try_except
                      (seq (log_msg INFO ''Deleting %s'' [z]) (fsop (Unlink z) (os_unlink pf z)))
                      (\<lambda>e. case e of
                              OSError m \<Rightarrow>
                                Some (log_msg ERROR ''Failed to delete %s: %s'' [z, str_exn e])
                            | _ \<Rightarrow> None)
                  else ret ())
        (seq (rmlink pf v (sym a))
             (symlink pf v dir (sym a)))))"
  have b: "bnd (readlink pf v (sym a)) (\<lambda>t. ret (Some t, Some (t @ ''.zip''))) w1
             = (Inr (Some t, Some (t @ ''.zip'')), w2)"
    using assms(2) by (simp add: bnd_def ret_def)
  have r: "try_except (bnd (readlink pf v (sym a)) (\<lambda>t. ret (Some t, Some (t @ ''.zip'')))) ?h w1
             = (Inr (Some t, Some (t @ ''.zip'')), w2)"
    using b by (simp add: try_except_def)
  have "directories pf X v dir a w =
          bnd (try_except (bnd (readlink pf v (sym a)) (\<lambda>t. ret (Some t, Some (t @ ''.zip'')))) ?h)
            ?k w1"
    unfolding directories_def using assms(1) by (simp add: bnd_def)
  also have "\<dots> = ?k (Some t, Some (t @ ''.zip'')) w2"
    using r by (rule bnd_Inr)
  finally show ?thesis by (simp add: assms(3))
qed


lemma seq_Inr: "m w = (Inr x, w') \<Longrightarrow> seq m k w = k w'"
  by (simp add: seq_def bnd_def)

lemma directories_gates:
  assumes sd: "samedir pf X v dir (sym a) w = (Inr False, w1)"
    and rl: "readlink pf v (sym a) w1 = (Inr t, w2)" and ne: "t \<noteq> []"
  shows "(Rmtree t \<in> set (new_events (directories pf X v dir a) w)
             \<longleftrightarrow> py_lower (skipdelete a) = ''false'')
         \<and> (Log INFO ''Deleting %s'' [t @ ''.zip''] \<in> set (new_events (directories pf X v dir a) w)
              \<and> Unlink (t @ ''.zip'') \<in> set (new_events (directories pf X v dir a) w)
             \<longleftrightarrow> py_lower (skipdeletezip a) = ''false'')"
proof -
  let ?z = "t @ ''.zip''"
  let ?L = "Log INFO ''Deleting %s'' [?z]"
  let ?Q = "\<lambda>e. e \<noteq> Rmtree t \<and> e \<noteq> ?L"
  let ?D1 = "if ''false'' = py_lower (skipdelete a) then
            try_except
              (seq (log_msg INFO ''Deleting %s'' [t]) (fsop (Rmtree t) (shutil_rmtree pf t)))
              (\<lambda>e. case e of
                      OSError m \<Rightarrow> Some (log_msg ERROR ''Failed to delete %s: %s'' [t, str_exn e])
                    | _ \<Rightarrow> None)
          else ret ()"
  let ?D2 = "if ''false'' = py_lower (skipdeletezip a) then
            try_except
              (seq (log_msg INFO ''Deleting %s'' [?z])
                   (fsop (Unlink ?z) (os_unlink pf ?z)))
              (\<lambda>e. case e of
                      OSError m \<Rightarrow>
                        Some (log_msg ERROR ''Failed to delete %s: %s'' [?z, str_exn e])
                    | _ \<Rightarrow> None)
          else ret ()"
  let ?R = "seq (rmlink pf v (sym a)) (symlink pf v dir (sym a))"
  have "adds_only ?Q (samedir pf X v dir (sym a))"
    by (rule adds_only_samedir) simp_all
  from adds_only_result[OF this sd] obtain E0 where
    E0: "trace w1 = trace w @ E0" "list_all ?Q E0" by blast
  have w2: "w2 = w1" using rl by (rule readlink_world)
  have "\<exists>w3 E1. ?D1 w2 = (Inr (), w3) \<and> trace w3 = trace w2 @ E1
           \<and> (Rmtree t \<in> set E1 \<longleftrightarrow> py_lower (skipdelete a) = ''false'') \<and> ?L \<notin> set E1"
  proof (cases "''false'' = py_lower (skipdelete a)")
    case False
    then show ?thesis by (auto simp: ret_def)
  next
    case True
    from guarded_delete[of "shutil_rmtree pf t" t "Rmtree t" w2] shutil_rmtree_raises
    obtain w3 evs where
      "try_except
              (seq (log_msg INFO ''Deleting %s'' [t]) (fsop (Rmtree t) (shutil_rmtree pf t)))
              (\<lambda>e. case e of
                      OSError m \<Rightarrow> Some (log_msg ERROR ''Failed to delete %s: %s'' [t, str_exn e])
                    | _ \<Rightarrow> None) w2 = (Inr (), w3)"
      "trace w3 = trace w2 @ Log INFO ''Deleting %s'' [t] # Rmtree t # evs"
      "list_all (\<lambda>e. \<exists>x. e = Log ERROR ''Failed to delete %s: %s'' x) evs"
      by blast
    with True show ?thesis by (auto simp: list_all_iff)
  qed
  then obtain w3 E1 where D1: "?D1 w2 = (Inr (), w3)" "trace w3 = trace w2 @ E1"
    "Rmtree t \<in> set E1 \<longleftrightarrow> py_lower (skipdelete a) = ''false''" "?L \<notin> set E1" by blast
  have "\<exists>w4 E2. ?D2 w3 = (Inr (), w4) \<and> trace w4 = trace w3 @ E2
           \<and> Rmtree t \<notin> set E2
           \<and> (?L \<in> set E2 \<and> Unlink ?z \<in> set E2 \<longleftrightarrow> py_lower (skipdeletezip a) = ''false'')
           \<and> (?L \<in> set E2 \<longrightarrow> py_lower (skipdeletezip a) = ''false'')"
  proof (cases "''false'' = py_lower (skipdeletezip a)")
    case False
    then show ?thesis by (auto simp: ret_def)
  next
    case True
    from guarded_delete[of "os_unlink pf ?z" ?z "Unlink ?z" w3] os_unlink_raises
    obtain w4 evs where
      "try_except
              (seq (log_msg INFO ''Deleting %s'' [?z])
                   (fsop (Unlink ?z) (os_unlink pf ?z)))
              (\<lambda>e. case e of
                      OSError m \<Rightarrow>
                        Some (log_msg ERROR ''Failed to delete %s: %s'' [?z, str_exn e])
                    | _ \<Rightarrow> None) w3 = (Inr (), w4)"
      "trace w4 = trace w3 @ ?L # Unlink ?z # evs"
      "list_all (\<lambda>e. \<exists>x. e = Log ERROR ''Failed to delete %s: %s'' x) evs"
      by blast
    with True show ?thesis by (auto simp: list_all_iff)
  qed
  then obtain w4 E2 where D2: "?D2 w3 = (Inr (), w4)" "trace w4 = trace w3 @ E2"
    "Rmtree t \<notin> set E2"
    "?L \<in> set E2 \<and> Unlink ?z \<in> set E2 \<longleftrightarrow> py_lower (skipdeletezip a) = ''false''"
    "?L \<in> set E2 \<longrightarrow> py_lower (skipdeletezip a) = ''false''" by blast
  obtain r w5 where R: "?R w4 = (r, w5)" by (cases "?R w4")
  have "adds_only pointer_event ?R"
    by (intro adds_only_seq pointer_rmlink pointer_symlink)
  then have "adds_only ?Q ?R"
    by (rule adds_only_mono) (auto elim: pointer_event.elims)
  from adds_only_result[OF this R] obtain E3 where
    E3: "trace w5 = trace w4 @ E3" "list_all ?Q E3" by blast
  have "directories pf X v dir a w = seq ?D1 (seq ?D2 ?R) w2"
    using sd rl ne by (rule directories_after_readlink)
  also have "\<dots> = seq ?D2 ?R w3" using D1(1) by (rule seq_Inr)
  also have "\<dots> = ?R w4" using D2(1) by (rule seq_Inr)
  finally have run: "directories pf X v dir a w = (r, w5)" using R by simp
  have ev: "new_events (directories pf X v dir a) w = E0 @ E1 @ E2 @ E3"
    using run E0(1) w2 D1(2) D2(2) E3(1) by (simp add: new_events_def)
  from E0(2) E3(2) D1(3,4) D2(3,4,5) show ?thesis
    unfolding ev by (auto simp: list_all_iff)
qed



lemma stat_path_set_node_file:
  assumes "map_of (nodes f) q = None \<or> (\<exists>m c. map_of (nodes f) q = Some (File m c))" "q \<noteq> []"
  shows "stat_path pf (set_node q (File k s) f) follow p =
           (case resolve pf f follow p of
              None \<Rightarrow> None
            | Some q' \<Rightarrow> if q' = q then Some (q, File k s) else stat_path pf f follow p)"
  by (simp add: stat_path_def resolve_set_node_file[OF assms(1)] node_at_set_node[OF assms(2)]
           split: option.splits)


lemma exists_set_node_file:
  assumes "map_of (nodes f) q = None \<or> (\<exists>m c. map_of (nodes f) q = Some (File m c))" "q \<noteq> []"
    and "os_path_exists pf f p"
  shows "os_path_exists pf (set_node q (File k s) f) p"
proof (cases "resolve pf f True p")
  case None
  with assms(3) show ?thesis by (simp add: os_path_exists_def stat_path_def)
next
  case (Some q')
  with assms(3) show ?thesis
    by (simp add: os_path_exists_def stat_path_set_node_file[OF assms(1,2)])
qed

lemma open_read_set_node_same:
  assumes "map_of (nodes f) q = None \<or> (\<exists>m c. map_of (nodes f) q = Some (File m c))" "q \<noteq> []"
    and "open_read pf f p = Inr s"
  shows "open_read pf (set_node q (File k s) f) p = Inr s"
proof (cases "resolve pf f True p")
  case None
  with assms(3) show ?thesis by (simp add: open_read_def stat_path_def)
next
  case (Some q')
  with assms(3) show ?thesis
    by (simp add: open_read_def stat_path_set_node_file[OF assms(1,2)])
qed

































section \<open>The claims\<close>



text \<open>
  C1. When \<^verbatim>\<open>samedir\<close> finds that the new instance directory and the pointer denote the
  same directory, the switchover logs a warning and returns: the file system is what it
  was before the step, and the step has called no primitive that deletes a directory or a
  file or that removes or writes a pointer (the emulated variant probes with a temporary
  file, which it removes again).
\<close>

theorem directories_same_directory_noop:
  assumes "samedir pf X v dir (sym a) w = (Inr True, w1)"
  shows "directories pf X v dir a w =
           (Inr (), w1\<lparr>trace := trace w1 @ [Log WARN ''Upgraded server was the same, not deleting'' []]\<rparr>)
         \<and> fs w1 = fs w
         \<and> filter switch_event (new_events (directories pf X v dir a) w) = []"
proof -
  have run: "directories pf X v dir a w =
           (Inr (), w1\<lparr>trace := trace w1 @ [Log WARN ''Upgraded server was the same, not deleting'' []]\<rparr>)"
    using assms by (simp add: directories_def bnd_def log_msg_def)
  have fs: "fs w1 = fs w" using assms by (rule samedir_fs)
  have "adds_only (\<lambda>e. \<not> switch_event e) (samedir pf X v dir (sym a))"
    by (rule adds_only_samedir) simp_all
  from adds_onlyD[OF this, of w] assms
  have tr: "trace w1 = trace w @ new_events (samedir pf X v dir (sym a)) w"
    and no: "list_all (\<lambda>e. \<not> switch_event e) (new_events (samedir pf X v dir (sym a)) w)"
    by simp_all
  have "new_events (directories pf X v dir a) w =
          new_events (samedir pf X v dir (sym a)) w @ [Log WARN ''Upgraded server was the same, not deleting'' []]"
    using run tr by (simp add: new_events_def)
  with no have "filter switch_event (new_events (directories pf X v dir a) w) = []"
    by (simp add: filter_empty_conv list_all_iff)
  with run fs show ?thesis by simp
qed


theorem directories_same_directory_noop_witness:
  "samedir Windows (ext_ok Windows) WindowsInstall ''A'' (sym (args0 Windows)) w0 =
     (Inr True, w0\<lparr>trace := [TempCreate (''A'' @ [bslash] @ ''tmpomego''),
                             TempDelete (''A'' @ [bslash] @ ''tmpomego'')]\<rparr>)
   \<and> fst (directories Windows (ext_ok Windows) WindowsInstall ''A'' (args0 Windows) w0) = Inr ()
   \<and> fs (snd (directories Windows (ext_ok Windows) WindowsInstall ''A'' (args0 Windows) w0)) = fs w0
   \<and> filter switch_event
        (new_events (directories Windows (ext_ok Windows) WindowsInstall ''A'' (args0 Windows)) w0) = []"
proof -
  have "samedir Windows (ext_ok Windows) WindowsInstall ''A'' (sym (args0 Windows)) w0 =
     (Inr True, w0\<lparr>trace := [TempCreate (''A'' @ [bslash] @ ''tmpomego''),
                             TempDelete (''A'' @ [bslash] @ ''tmpomego'')]\<rparr>)"
    by code_simp
  from this directories_same_directory_noop[OF this] show ?thesis by simp
qed

text \<open>
  C3, as amended. The default of \<^verbatim>\<open>skipdelete\<close> is \<^verbatim>\<open>"true"\<close>: an upgrade run with that
  value never calls \<^verbatim>\<open>shutil.rmtree\<close>, so by default the directory tree of the previous
  instance is kept.
\<close>

theorem default_upgrade_never_calls_rmtree:
  assumes "skipdelete a = skipdelete (UpgradeCommand_defaults pf a0)"
  shows "filter is_rmtree (new_events (Install pf X v ''upgrade'' a) w) = []"
proof -
  have "py_lower (skipdelete a) \<noteq> ''false''"
    using assms by (simp add: UpgradeCommand_defaults_def InstallBaseCommand_defaults_def py_lower_true)
  from adds_onlyD[OF no_rmtree_Install[OF this], of pf X v "''upgrade''" w]
  show ?thesis by (simp add: filter_empty_conv list_all_iff)
qed


theorem default_upgrade_never_calls_rmtree_witness:
  "skipdelete ((args0 Posix)\<lparr>server := Some ''B''\<rparr>) = skipdelete (UpgradeCommand_defaults Posix (args0 Posix))
   \<and> filter is_rmtree
        (new_events (Install Posix (ext_ok Posix) UnixInstall ''upgrade''
                       ((args0 Posix)\<lparr>server := Some ''B''\<rparr>)) w0) = []"
proof -
  have "skipdelete ((args0 Posix)\<lparr>server := Some ''B''\<rparr>)
          = skipdelete (UpgradeCommand_defaults Posix (args0 Posix))"
    by (simp add: args0_def UpgradeCommand_defaults_def InstallBaseCommand_defaults_def)
  from this default_upgrade_never_calls_rmtree[OF this] show ?thesis by simp
qed

text \<open>
  C3, as stated, fails: in \<^verbatim>\<open>/srv\<close> with the pointer at \<^verbatim>\<open>A\<close>, the upgrade to \<^verbatim>\<open>B\<close>
  with every option at its default succeeds and moves the pointer to \<^verbatim>\<open>B\<close>, the new
  directory differing from the old target, and afterwards \<^verbatim>\<open>A\<close> is still a directory
  with its configuration file in it; \<^verbatim>\<open>rmtree\<close> was not called on it.
\<close>

theorem default_upgrade_keeps_previous_directory:
  "os_path_samefile Posix (fs w0) ''B'' (sym (args0 Posix)) = Inr False
   \<and> fst (Install Posix (ext_ok Posix) UnixInstall ''upgrade''
            ((args0 Posix)\<lparr>server := Some ''B''\<rparr>) w0) = Inr ()
   \<and> os_readlink Posix
        (fs (snd (Install Posix (ext_ok Posix) UnixInstall ''upgrade''
                    ((args0 Posix)\<lparr>server := Some ''B''\<rparr>) w0))) (sym (args0 Posix)) = Inr ''B''
   \<and> os_path_isdir Posix
        (fs (snd (Install Posix (ext_ok Posix) UnixInstall ''upgrade''
                    ((args0 Posix)\<lparr>server := Some ''B''\<rparr>) w0))) ''A''
   \<and> open_read Posix
        (fs (snd (Install Posix (ext_ok Posix) UnixInstall ''upgrade''
                    ((args0 Posix)\<lparr>server := Some ''B''\<rparr>) w0))) ''A/etc/grid/config.xml'' = Inr ''old''
   \<and> Rmtree ''A'' \<notin> set (trace (snd (Install Posix (ext_ok Posix) UnixInstall ''upgrade''
                    ((args0 Posix)\<lparr>server := Some ''B''\<rparr>) w0)))"
  by code_simp





text \<open>
  C5 fails on the code. With \<^verbatim>\<open>OMERO-CURRENT\<close> a plain directory and \<^verbatim>\<open>B\<close> the new
  instance, the upgrade precondition holds and the two directories differ; \<^verbatim>\<open>os.readlink\<close>
  raises \<^verbatim>\<open>OSError\<close>, which the \<^verbatim>\<open>except IOError\<close> clause of \<^verbatim>\<open>directories\<close> does not
  catch: the switchover ends with that exception, nothing is logged, and the pointer is
  neither removed nor recreated.
\<close>

theorem unix_readlink_failure_is_fatal:
  "os_path_exists Posix (fs w_plain) (sym (args0 Posix))
   \<and> samedir Posix (ext_ok Posix) UnixInstall ''B'' (sym (args0 Posix)) w_plain = (Inr False, w_plain)
   \<and> readlink Posix UnixInstall (sym (args0 Posix)) w_plain = (Inl (OSError ''Invalid argument''), w_plain)
   \<and> directories Posix (ext_ok Posix) UnixInstall ''B'' (args0 Posix) w_plain
        = (Inl (OSError ''Invalid argument''), w_plain)"
  by code_simp

text \<open>
  C7. When the loop over the pre-start inputs returns, the trace has grown by the replay
  of each input, in list order: the log line, the resolution of the input, and the load
  command for the local path that this input resolved to.

  Step by step: when the inputs before \<open>f\<close> have been replayed, \<open>f\<close> is resolved next. If
  it resolves to something that is not a file, the loop raises \<^verbatim>\<open>Stop\<close> with code 50 and a
  message naming the kind found and \<open>f\<close>; the world it leaves is the one after the resolution
  of \<open>f\<close>, whatever inputs follow \<open>f\<close> in the list: none of them is resolved or replayed. If
  it resolves to a file, the load command is issued for the path it resolved to, and only
  then does the loop go on to the inputs after \<open>f\<close>. A failure of the resolution or of the
  load command ends the loop with that failure.
\<close>

theorem prestart_replay_order_and_abort:
  "(load_prestart X files w = (Inr (), w') \<longrightarrow>
      length (local_paths X files (fs w)) = length files
      \<and> trace w' = trace w @ concat (map replay_events (zip files (local_paths X files (fs w)))))
   \<and> (load_prestart X pre w = (Inr (), w1)
        \<and> fileutils_get_as_local_path X f ''backup'' 0 None None (fs w1) = (r, f2) \<longrightarrow>
      load_prestart X (pre @ f # post) w =
        (case r of
           Inl e \<Rightarrow>
             (Inl e, \<lparr>fs = f2, trace = trace w1 @ [Log INFO ''Loading prestart file %s'' [f],
                                                   GetAsLocalPath f ''backup'']\<rparr>)
         | Inr (ftype, fpath) \<Rightarrow>
             if ftype \<noteq> ''file'' then
               (Inl (Stop 50 (''Expected file, found: '' @ ftype @ '' '' @ f)),
                \<lparr>fs = f2, trace = trace w1 @ [Log INFO ''Loading prestart file %s'' [f],
                                              GetAsLocalPath f ''backup'']\<rparr>)
             else (case omero_cli X [''load'', fpath] f2 of
                     (Inl e, f3) \<Rightarrow>
                       (Inl e, \<lparr>fs = f3, trace = trace w1 @ replay_events (f, fpath)\<rparr>)
                   | (Inr u, f3) \<Rightarrow>
                       load_prestart X post
                         \<lparr>fs = f3, trace = trace w1 @ replay_events (f, fpath)\<rparr>)))"
proof (intro conjI impI)
  assume a: "load_prestart X files w = (Inr (), w')"
  from load_prestart_local_paths[OF a]
  show "length (local_paths X files (fs w)) = length files" by simp
  from load_prestart_local_paths[OF a]
  show "trace w' = trace w @ concat (map replay_events (zip files (local_paths X files (fs w))))"
    by simp
next
  assume a: "load_prestart X pre w = (Inr (), w1)
        \<and> fileutils_get_as_local_path X f ''backup'' 0 None None (fs w1) = (r, f2)"
  then have "load_prestart X (pre @ f # post) w = load_prestart X (f # post) w1"
    by (simp add: load_prestart_append seq_def bnd_def)
  also from a have g: "fileutils_get_as_local_path X f ''backup'' 0 None None (fs w1) = (r, f2)"
    by simp
  note load_prestart_step[OF g, of post]
  finally show "load_prestart X (pre @ f # post) w =
        (case r of
           Inl e \<Rightarrow>
             (Inl e, \<lparr>fs = f2, trace = trace w1 @ [Log INFO ''Loading prestart file %s'' [f],
                                                   GetAsLocalPath f ''backup'']\<rparr>)
         | Inr (ftype, fpath) \<Rightarrow>
             if ftype \<noteq> ''file'' then
               (Inl (Stop 50 (''Expected file, found: '' @ ftype @ '' '' @ f)),
                \<lparr>fs = f2, trace = trace w1 @ [Log INFO ''Loading prestart file %s'' [f],
                                              GetAsLocalPath f ''backup'']\<rparr>)
             else (case omero_cli X [''load'', fpath] f2 of
                     (Inl e, f3) \<Rightarrow>
                       (Inl e, \<lparr>fs = f3, trace = trace w1 @ replay_events (f, fpath)\<rparr>)
                   | (Inr u, f3) \<Rightarrow>
                       load_prestart X post
                         \<lparr>fs = f3, trace = trace w1 @ replay_events (f, fpath)\<rparr>))" .
qed


theorem prestart_replay_order_and_abort_witness:
  "load_prestart (ext_cache Posix) [''a.omero'', ''b.omero''] w_pre =
     (Inr (), \<lparr>fs = fs_pre,
               trace = [Log INFO ''Loading prestart file %s'' [''a.omero''],
                        GetAsLocalPath ''a.omero'' ''backup'',
                        OmeroCli [''load'', ''cache/a.omero''],
                        Log INFO ''Loading prestart file %s'' [''b.omero''],
                        GetAsLocalPath ''b.omero'' ''backup'',
                        OmeroCli [''load'', ''cache/b.omero'']]\<rparr>)
   \<and> local_paths (ext_cache Posix) [''a.omero'', ''b.omero''] (fs w_pre)
       = [''cache/a.omero'', ''cache/b.omero'']
   \<and> load_prestart (ext_cache Posix) [''a.omero''] w_pre =
       (Inr (), \<lparr>fs = fs_pre, trace = replay_events (''a.omero'', ''cache/a.omero'')\<rparr>)
   \<and> fileutils_get_as_local_path (ext_cache Posix) ''d'' ''backup'' 0 None None fs_pre
       = (Inr (''directory'', ''cache/d''), fs_pre)
   \<and> load_prestart (ext_cache Posix) ([''a.omero''] @ ''d'' # [''b.omero'']) w_pre =
       (Inl (Stop 50 ''Expected file, found: directory d''),
        \<lparr>fs = fs_pre, trace = replay_events (''a.omero'', ''cache/a.omero'')
                                @ [Log INFO ''Loading prestart file %s'' [''d''],
                                   GetAsLocalPath ''d'' ''backup'']\<rparr>)
   \<and> fileutils_get_as_local_path (ext_cache Posix) ''b.omero'' ''backup'' 0 None None fs_pre
       = (Inr (''file'', ''cache/b.omero''), fs_pre)
   \<and> load_prestart (ext_cache Posix) ([''a.omero''] @ ''b.omero'' # []) w_pre =
       (Inr (), \<lparr>fs = fs_pre, trace = replay_events (''a.omero'', ''cache/a.omero'')
                                        @ replay_events (''b.omero'', ''cache/b.omero'')\<rparr>)"
proof -
  let ?X = "ext_cache Posix"
  let ?W2 = "\<lparr>fs = fs_pre,
               trace = [Log INFO ''Loading prestart file %s'' [''a.omero''],
                        GetAsLocalPath ''a.omero'' ''backup'',
                        OmeroCli [''load'', ''cache/a.omero''],
                        Log INFO ''Loading prestart file %s'' [''b.omero''],
                        GetAsLocalPath ''b.omero'' ''backup'',
                        OmeroCli [''load'', ''cache/b.omero'']]\<rparr>"
  let ?W1 = "\<lparr>fs = fs_pre, trace = replay_events (''a.omero'', ''cache/a.omero'')\<rparr>"
  have a: "load_prestart ?X [''a.omero'', ''b.omero''] w_pre = (Inr (), ?W2)"
    by code_simp
  have p: "local_paths ?X [''a.omero'', ''b.omero''] (fs w_pre)
             = [''cache/a.omero'', ''cache/b.omero'']"
    by code_simp
  have b: "load_prestart ?X [''a.omero''] w_pre = (Inr (), ?W1)"
    by code_simp
  have c: "fileutils_get_as_local_path ?X ''d'' ''backup'' 0 None None (fs ?W1)
             = (Inr (''directory'', ''cache/d''), fs_pre)"
    by code_simp
  have d: "fileutils_get_as_local_path ?X ''b.omero'' ''backup'' 0 None None (fs ?W1)
             = (Inr (''file'', ''cache/b.omero''), fs_pre)"
    by code_simp
  have o: "omero_cli ?X [''load'', ''cache/b.omero''] fs_pre = (Inr (), fs_pre)"
    by (simp add: ext_cache_def ext_ok_def)
  have s1: "load_prestart ?X ([''a.omero''] @ ''d'' # [''b.omero'']) w_pre =
       (Inl (Stop 50 ''Expected file, found: directory d''),
        \<lparr>fs = fs_pre, trace = replay_events (''a.omero'', ''cache/a.omero'')
                                @ [Log INFO ''Loading prestart file %s'' [''d''],
                                   GetAsLocalPath ''d'' ''backup'']\<rparr>)"
    using b c
      prestart_replay_order_and_abort[of ?X "[''a.omero'', ''b.omero'']" w_pre ?W2
        "[''a.omero'']" ?W1 "''d''" "Inr (''directory'', ''cache/d'')" fs_pre "[''b.omero'']"]
    by simp
  have s2: "load_prestart ?X ([''a.omero''] @ ''b.omero'' # []) w_pre =
       (Inr (), \<lparr>fs = fs_pre, trace = replay_events (''a.omero'', ''cache/a.omero'')
                                        @ replay_events (''b.omero'', ''cache/b.omero'')\<rparr>)"
    using b d o
      prestart_replay_order_and_abort[of ?X "[''a.omero'', ''b.omero'']" w_pre ?W2
        "[''a.omero'']" ?W1 "''b.omero''" "Inr (''file'', ''cache/b.omero'')" fs_pre "[]"]
    by (simp add: ret_def)
  from a p b c[simplified] d[simplified] s1 s2 show ?thesis by blast
qed

text \<open>
  C8, as amended. On Windows, after \<^verbatim>\<open>symlink(targetdir, link)\<close> of the emulated variant
  has succeeded, the sidecar file \<^verbatim>\<open><link>.target\<close> contains exactly the target path as
  it was passed, and \<^verbatim>\<open>readlink(link)\<close> returns the normalised form of that path and
  changes nothing.
\<close>

theorem sidecar_holds_target_as_passed:
  assumes "symlink Windows WindowsInstall targetdir link w = (Inr (), w1)"
  shows "open_read Windows (fs w1) (link @ ''.target'') = Inr targetdir
         \<and> readlink Windows WindowsInstall link w1 = (Inr (os_path_normpath Windows targetdir), w1)"
proof -
  from assms have "\<exists>f1. open_write Windows (link @ ''.target'') targetdir f1 = (Inr (), fs w1)"
    unfolding symlink_windows by (rule seq_fsop_result)
  then obtain f1 where "open_write Windows (link @ ''.target'') targetdir f1 = (Inr (), fs w1)" ..
  then have rd: "open_read Windows (fs w1) (link @ ''.target'') = Inr targetdir"
    by (rule open_write_read)
  then have "readlink Windows WindowsInstall link w1 = (Inr (os_path_normpath Windows targetdir), w1)"
    by (simp add: readlink_def os_readlink_def io_defs)
  with rd show ?thesis by simp
qed

theorem sidecar_holds_target_as_passed_witness:
  "symlink Windows WindowsInstall ''OMERO.server'' ''OMERO-CURRENT'' w_new =
     (Inr (), \<lparr>fs = fs_new\<lparr>nodes := nodes fs_new @
                     [([''srv'', ''OMERO-CURRENT''], Link ''OMERO.server''),
                      ([''srv'', ''OMERO-CURRENT.target''], File ReadWrite ''OMERO.server'')]\<rparr>,
               trace = [CreateSymbolicLink ''OMERO-CURRENT'' ''OMERO.server'' 1,
                        WriteFile ''OMERO-CURRENT.target'' ''OMERO.server'']\<rparr>)
   \<and> open_read Windows
        (fs_new\<lparr>nodes := nodes fs_new @
                     [([''srv'', ''OMERO-CURRENT''], Link ''OMERO.server''),
                      ([''srv'', ''OMERO-CURRENT.target''], File ReadWrite ''OMERO.server'')]\<rparr>)
        (''OMERO-CURRENT'' @ ''.target'') = Inr ''OMERO.server''
   \<and> fst (readlink Windows WindowsInstall ''OMERO-CURRENT''
        \<lparr>fs = fs_new\<lparr>nodes := nodes fs_new @
                     [([''srv'', ''OMERO-CURRENT''], Link ''OMERO.server''),
                      ([''srv'', ''OMERO-CURRENT.target''], File ReadWrite ''OMERO.server'')]\<rparr>,
               trace = [CreateSymbolicLink ''OMERO-CURRENT'' ''OMERO.server'' 1,
                        WriteFile ''OMERO-CURRENT.target'' ''OMERO.server'']\<rparr>)
       = Inr (os_path_normpath Windows ''OMERO.server'')"
proof -
  let ?w1 = "\<lparr>fs = fs_new\<lparr>nodes := nodes fs_new @
                     [([''srv'', ''OMERO-CURRENT''], Link ''OMERO.server''),
                      ([''srv'', ''OMERO-CURRENT.target''], File ReadWrite ''OMERO.server'')]\<rparr>,
               trace = [CreateSymbolicLink ''OMERO-CURRENT'' ''OMERO.server'' 1,
                        WriteFile ''OMERO-CURRENT.target'' ''OMERO.server'']\<rparr>"
  have "symlink Windows WindowsInstall ''OMERO.server'' ''OMERO-CURRENT'' w_new = (Inr (), ?w1)"
    by code_simp
  from this sidecar_holds_target_as_passed[OF this] show ?thesis by simp
qed

text \<open>
  C8, as stated, fails: created with the target \<^verbatim>\<open>OMERO.server/\<close>, the sidecar file
  contains \<^verbatim>\<open>OMERO.server/\<close>, which is not the normalised path \<^verbatim>\<open>OMERO.server\<close> that
  \<^verbatim>\<open>readlink\<close> returns.
\<close>

theorem sidecar_is_not_normalized:
  "fst (symlink Windows WindowsInstall ''OMERO.server/'' ''OMERO-CURRENT'' w_new) = Inr ()
   \<and> open_read Windows
        (fs (snd (symlink Windows WindowsInstall ''OMERO.server/'' ''OMERO-CURRENT'' w_new)))
        ''OMERO-CURRENT.target'' = Inr ''OMERO.server/''
   \<and> os_path_normpath Windows ''OMERO.server/'' = ''OMERO.server''
   \<and> fst (readlink Windows WindowsInstall ''OMERO-CURRENT''
             (snd (symlink Windows WindowsInstall ''OMERO.server/'' ''OMERO-CURRENT'' w_new)))
       = Inr ''OMERO.server''"
  by code_simp

text \<open>
  C10. With the dry-run option set, \<^verbatim>\<open>InstallBaseCommand.__call__\<close> is the framework
  call, the logging configuration and the interpolation of the arguments, and nothing else:
  it returns as soon as the interpolation has, whatever the command name and the platform,
  and every event it adds is one of those three steps. No installer is built, so there is
  no precondition check, no change of the file system or of the pointer and no admin
  command.
\<close>

theorem dry_run_builds_no_installer:
  assumes "dry_run a"
  shows "InstallBaseCommand_call pf X names name a w =
           seq (fsop CommandCall (command_call X a))
          (seq (fsop ConfigureLogging (configure_logging X a))
          (seq (interpolate X names a) (ret ()))) w
         \<and> list_all preamble_event (new_events (InstallBaseCommand_call pf X names name a) w)"
proof -
  have k: "bnd (interpolate X names a) (\<lambda>a'.
             if dry_run a' then ret ()
             else if pf = Windows then Install pf X WindowsInstall name a'
             else Install pf X UnixInstall name a') w'
           = seq (interpolate X names a) (ret ()) w'" for w'
  proof (cases "interpolate X names a w'")
    case (Pair r w'')
    show ?thesis
    proof (cases r)
      case (Inl e)
      with Pair show ?thesis by (simp add: seq_def bnd_def)
    next
      case (Inr a')
      with Pair interpolate_dry_run[of X names a w' a' w''] assms
      show ?thesis by (simp add: seq_def bnd_def)
    qed
  qed
  then have "bnd (interpolate X names a) (\<lambda>a'.
             if dry_run a' then ret ()
             else if pf = Windows then Install pf X WindowsInstall name a'
             else Install pf X UnixInstall name a')
           = seq (interpolate X names a) (ret ())"
    by (intro ext)
  then have eq: "InstallBaseCommand_call pf X names name a =
           seq (fsop CommandCall (command_call X a))
          (seq (fsop ConfigureLogging (configure_logging X a))
          (seq (interpolate X names a) (ret ())))"
    by (simp add: InstallBaseCommand_call_def)
  have "adds_only preamble_event
          (seq (fsop CommandCall (command_call X a))
          (seq (fsop ConfigureLogging (configure_logging X a))
          (seq (interpolate X names a) (ret ()))))"
    by (intro adds_only_seq adds_only_fsop adds_only_interpolate adds_only_ret) simp_all
  from adds_onlyD[OF this, of w] eq show ?thesis by simp
qed

theorem dry_run_builds_no_installer_witness:
  "dry_run ((args0 Posix)\<lparr>dry_run := True, prefix := ''1''\<rparr>)
   \<and> InstallBaseCommand_call Posix (ext_ok Posix)
        [''dry_run'', ''prefix'', ''registry'', ''server'', ''skipdelete'', ''sym'', ''verbose'']
        ''upgrade'' ((args0 Posix)\<lparr>dry_run := True, prefix := ''1''\<rparr>) w0
      = seq (fsop CommandCall (command_call (ext_ok Posix) ((args0 Posix)\<lparr>dry_run := True, prefix := ''1''\<rparr>)))
       (seq (fsop ConfigureLogging (configure_logging (ext_ok Posix) ((args0 Posix)\<lparr>dry_run := True, prefix := ''1''\<rparr>)))
       (seq (interpolate (ext_ok Posix)
               [''dry_run'', ''prefix'', ''registry'', ''server'', ''skipdelete'', ''sym'', ''verbose'']
               ((args0 Posix)\<lparr>dry_run := True, prefix := ''1''\<rparr>)) (ret ()))) w0
   \<and> list_all preamble_event
        (new_events (InstallBaseCommand_call Posix (ext_ok Posix)
           [''dry_run'', ''prefix'', ''registry'', ''server'', ''skipdelete'', ''sym'', ''verbose'']
           ''upgrade'' ((args0 Posix)\<lparr>dry_run := True, prefix := ''1''\<rparr>)) w0)"
proof -
  have "dry_run ((args0 Posix)\<lparr>dry_run := True, prefix := ''1''\<rparr>)" by simp
  from this dry_run_builds_no_installer[OF this] show ?thesis by blast
qed

text \<open>
  C9. The three options are strings, and each guards its step by the test
  \<^verbatim>\<open>"false" == option.lower()\<close>. The web-stop command is issued by \<^verbatim>\<open>stop\<close> exactly when
  \<^verbatim>\<open>skipweb\<close> lowercases to \<^verbatim>\<open>false\<close>; the web-start command is issued by \<^verbatim>\<open>start\<close>
  exactly when it does and the start of the server has not failed. In a switchover that
  has found the two directories different and has read a non-empty target, \<^verbatim>\<open>rmtree\<close> is
  called on the target exactly when \<^verbatim>\<open>skipdelete\<close> lowercases to \<^verbatim>\<open>false\<close>, and the deletion
  of the archive (its log line and its \<^verbatim>\<open>unlink\<close>) happens exactly when
  \<^verbatim>\<open>skipdeletezip\<close> does. Any other value disables the step.
\<close>

theorem skip_options_gate_their_steps:
  "(OmeroBin (web_stop_command v) \<in> set (new_events (stop X v a) w)
      \<longleftrightarrow> py_lower (skipweb a) = ''false'')
   \<and> (OmeroCli (web_start_command v) \<in> set (new_events (start X v a) w)
      \<longleftrightarrow> py_lower (skipweb a) = ''false''
          \<and> \<not> isl (fst (omero_cli X [''admin'', ''start''] (fs w))))
   \<and> (samedir pf X v dir (sym a) w = (Inr False, w1)
        \<and> readlink pf v (sym a) w1 = (Inr t, w2) \<and> t \<noteq> [] \<longrightarrow>
      (Rmtree t \<in> set (new_events (directories pf X v dir a) w)
         \<longleftrightarrow> py_lower (skipdelete a) = ''false'')
      \<and> (Log INFO ''Deleting %s'' [t @ ''.zip''] \<in> set (new_events (directories pf X v dir a) w)
           \<and> Unlink (t @ ''.zip'') \<in> set (new_events (directories pf X v dir a) w)
         \<longleftrightarrow> py_lower (skipdeletezip a) = ''false''))"
  using stop_web_gate[of v X a w] start_web_gate[of v X a w]
    directories_gates[of pf X v dir a w w1 t w2]
  by blast

theorem skip_options_gate_their_steps_witness:
  "samedir Posix (ext_ok Posix) UnixInstall ''B'' (sym args_skip) w0 = (Inr False, w0)
   \<and> readlink Posix UnixInstall (sym args_skip) w0 = (Inr ''A'', w0)
   \<and> py_lower (skipdelete args_skip) = ''false''
   \<and> Rmtree ''A'' \<in> set (new_events (directories Posix (ext_ok Posix) UnixInstall ''B'' args_skip) w0)
   \<and> py_lower (skipdeletezip args_skip) \<noteq> ''false''
   \<and> \<not> (Log INFO ''Deleting %s'' [''A'' @ ''.zip'']
            \<in> set (new_events (directories Posix (ext_ok Posix) UnixInstall ''B'' args_skip) w0)
          \<and> Unlink (''A'' @ ''.zip'')
            \<in> set (new_events (directories Posix (ext_ok Posix) UnixInstall ''B'' args_skip) w0))
   \<and> py_lower (skipweb args_skip) \<noteq> ''false''
   \<and> OmeroBin (web_stop_command UnixInstall)
        \<notin> set (new_events (stop (ext_ok Posix) UnixInstall args_skip) w0)
   \<and> OmeroCli (web_start_command UnixInstall)
        \<notin> set (new_events (start (ext_ok Posix) UnixInstall args_skip) w0)"
proof -
  have h1: "samedir Posix (ext_ok Posix) UnixInstall ''B'' (sym args_skip) w0 = (Inr False, w0)"
    by code_simp
  have h2: "readlink Posix UnixInstall (sym args_skip) w0 = (Inr ''A'', w0)"
    by code_simp
  have h3: "''A'' \<noteq> []" by simp
  have g1: "py_lower (skipdelete args_skip) = ''false''" by code_simp
  have g2: "py_lower (skipdeletezip args_skip) \<noteq> ''false''" by code_simp
  have g3: "py_lower (skipweb args_skip) \<noteq> ''false''" by code_simp
  from h1 h2 h3 g1 g2 g3
    skip_options_gate_their_steps[of UnixInstall "ext_ok Posix" args_skip w0 Posix "''B''" w0 "''A''" w0]
  show ?thesis by blast
qed




end
